theory Spec2Isabelle
  imports Complex_Main "HOL-Library.Word" "HOL-Library.Sublist"
begin

unbundle bit_operations_syntax

section \<open>Strings\<close>

text \<open>
  A TypeScript string is modelled as a \<open>string\<close> whose characters are ASCII: the case
  conversions below change the 26 letters and nothing else, which is what
  \<open>toUpperCase\<close> and \<open>toLowerCase\<close> do on that range, and \<open>trim\<close> removes the
  ASCII white space (tab, line feed, vertical tab, form feed, carriage return, space).
\<close>

definition toLowerChar :: "char \<Rightarrow> char" where
  "toLowerChar c =
     (case map_of (zip ''ABCDEFGHIJKLMNOPQRSTUVWXYZ'' ''abcdefghijklmnopqrstuvwxyz'') c of
        Some d \<Rightarrow> d
      | None \<Rightarrow> c)"

definition toUpperChar :: "char \<Rightarrow> char" where
  "toUpperChar c =
     (case map_of (zip ''abcdefghijklmnopqrstuvwxyz'' ''ABCDEFGHIJKLMNOPQRSTUVWXYZ'') c of
        Some d \<Rightarrow> d
      | None \<Rightarrow> c)"

definition toLowerCase :: "string \<Rightarrow> string" where
  "toLowerCase s = map toLowerChar s"

definition toUpperCase :: "string \<Rightarrow> string" where
  "toUpperCase s = map toUpperChar s"

definition isSpace :: "char \<Rightarrow> bool" where
  "isSpace c = (c \<in> set [CHR 0x09, CHR 0x0A, CHR 0x0B, CHR 0x0C, CHR 0x0D, CHR '' ''])"

definition trim :: "string \<Rightarrow> string" where
  "trim s = rev (dropWhile isSpace (rev (dropWhile isSpace s)))"

fun startsWith :: "string \<Rightarrow> string \<Rightarrow> bool" where
  "startsWith s [] = True"
| "startsWith [] (c # cs) = False"
| "startsWith (d # ds) (c # cs) = (d = c \<and> startsWith ds cs)"

text \<open>\<open>s.includes(sub)\<close>: \<open>sub\<close> occurs in \<open>s\<close> as a contiguous run.\<close>

fun includes_str :: "string \<Rightarrow> string \<Rightarrow> bool" where
  "includes_str [] sub = (sub = [])"
| "includes_str (d # ds) sub = (startsWith (d # ds) sub \<or> includes_str ds sub)"

text \<open>\<open>s.split(',')\<close>, and its first element \<open>s.split(',')[0]\<close>.\<close>

fun splitComma :: "string \<Rightarrow> string list" where
  "splitComma [] = [] # []"
| "splitComma (c # cs) =
     (if c = CHR '','' then [] # splitComma cs
      else (case splitComma cs of
              [] \<Rightarrow> [c] # []
            | p # ps \<Rightarrow> (c # p) # ps))"

definition firstSegment :: "string \<Rightarrow> string" where
  "firstSegment s = takeWhile (\<lambda>c. c \<noteq> CHR '','') s"

section \<open>Numbers and great-circle distance\<close>

text \<open>
  A TypeScript \<open>number\<close> is modelled as a \<open>real\<close> and the \<open>Math\<close> functions as the
  real functions they approximate. The rounding of double-precision arithmetic is
  outside the model, except for the haversine term of the waypoint synthesizer, which
  rounding can lift above 1 so that the distance is \<open>NaN\<close> (see there).
  \<open>Math.atan2\<close> is written out quadrant by quadrant.
\<close>

definition atan2 :: "real \<Rightarrow> real \<Rightarrow> real" where
  "atan2 y x =
     (if 0 < x then arctan (y / x)
      else if x < 0 then (if 0 \<le> y then arctan (y / x) + pi else arctan (y / x) - pi)
      else if 0 < y then pi / 2
      else if y < 0 then - (pi / 2)
      else 0)"

definition calculateDistance :: "real \<Rightarrow> real \<Rightarrow> real \<Rightarrow> real \<Rightarrow> real" where
  "calculateDistance lat1 lon1 lat2 lon2 =
     (let R = 6371;
          dLat = (lat2 - lat1) * pi / 180;
          dLon = (lon2 - lon1) * pi / 180;
          a = sin (dLat / 2) * sin (dLat / 2) +
              cos (lat1 * pi / 180) * cos (lat2 * pi / 180) *
              sin (dLon / 2) * sin (dLon / 2);
          c = 2 * atan2 (sqrt a) (sqrt (1 - a))
      in R * c)"

section \<open>The tracking feed\<close>

text \<open>
  The records follow the interface \<open>ShipmentTrackingData\<close>. A field whose name is
  shared by two object shapes of the source, or is also the name of a variable of the
  source, carries a short prefix.
\<close>

record Coordinates =
  latitude :: real
  longitude :: real

record PortInfo =
  port_name :: string
  port_code :: string
  coordinates :: Coordinates

record TransshipmentPort = PortInfo +
  port_city :: string
  port_country :: string
  arrival_date :: string
  departure_date :: string
  vessel_at_transshipment :: string
  ts_vessel_imo :: string

datatype RouteType = direct | transshipment

record RouteInfo =
  ri_origin :: PortInfo
  ri_destination :: PortInfo
  transshipment_ports :: "TransshipmentPort list"
  route_type :: RouteType

record RouteCoordinates =
  completed_route :: "Coordinates list"
  remaining_route :: "Coordinates list"

record CurrentPositionData = Coordinates +
  location_name :: string
  cp_timestamp :: string
  vessel_name :: "string option"
  vessel_imo :: "string option"
  cp_status :: string
  current_leg :: real

record ShipmentTrackingData =
  shipment_order_number :: string
  shipment_id :: string
  shipment_status :: string
  route_info :: RouteInfo
  route_coordinates :: RouteCoordinates
  current_position :: CurrentPositionData

section \<open>Shipments\<close>

datatype ShipmentStatus = delivered | in_transit | pending | closed

datatype MilestoneStatus = completed | current | upcoming

text \<open>A \<open>Date\<close> is its time value in milliseconds; \<open>None\<close> is the invalid date.\<close>

type_synonym Date = "int option"

record Milestone =
  m_id :: string
  m_name :: string
  m_date :: Date
  m_location :: string
  m_status :: MilestoneStatus

record Shipment =
  s_id :: string
  orderNumber :: string
  s_status :: ShipmentStatus
  s_origin :: string
  s_destination :: string
  milestones :: "Milestone list"

section \<open>Vessel position on the tracked route\<close>

text \<open>
  The module imports \<open>shipmentTracking.json\<close>; its \<open>shipments\<close> array is the
  parameter \<open>feed\<close> of the functions that read it.
\<close>

definition getShipmentTrackingData ::
  "ShipmentTrackingData list \<Rightarrow> string \<Rightarrow> ShipmentTrackingData option" where
  "getShipmentTrackingData feed shipmentIdOrOrderNumber =
     find (\<lambda>s. shipment_id s = shipmentIdOrOrderNumber \<or>
               shipment_order_number s = shipmentIdOrOrderNumber) feed"

record LatLng =
  lat :: real
  lng :: real

text \<open>
  The running minimum of \<open>findClosestSeaWaypoint\<close> starts at \<open>Infinity\<close>, here
  \<open>None\<close>; \<open>belowMin d m\<close> is the test \<open>distance < minDistance\<close>.
\<close>

definition belowMin :: "real \<Rightarrow> real option \<Rightarrow> bool" where
  "belowMin d m = (case m of None \<Rightarrow> True | Some y \<Rightarrow> d < y)"

fun closestLoop :: "real \<Rightarrow> real \<Rightarrow> LatLng list \<Rightarrow> real option \<Rightarrow> LatLng \<Rightarrow> LatLng" where
  "closestLoop targetLat targetLon [] minDistance closestPoint = closestPoint"
| "closestLoop targetLat targetLon (point # rest) minDistance closestPoint =
     (let distance = calculateDistance targetLat targetLon (lat point) (lng point)
      in if belowMin distance minDistance
         then closestLoop targetLat targetLon rest (Some distance) point
         else closestLoop targetLat targetLon rest minDistance closestPoint)"

definition findClosestSeaWaypoint :: "real \<Rightarrow> real \<Rightarrow> LatLng list \<Rightarrow> LatLng option" where
  "findClosestSeaWaypoint targetLat targetLon routePoints =
     (case routePoints of
        [] \<Rightarrow> None
      | p # ps \<Rightarrow> Some (closestLoop targetLat targetLon routePoints None p))"

record CurrentPosition = LatLng +
  vesselName :: "string option"
  vesselImo :: "string option"
  pos_status :: string
  locationName :: string
  timestamp :: string

record PortMarker = LatLng +
  pm_name :: string
  pm_code :: string

record TransshipmentMarker = PortMarker +
  tm_city :: string
  tm_country :: string
  tm_arrivalDate :: string
  tm_departureDate :: string
  tm_vesselName :: string
  tm_vesselImo :: string

record Ports =
  p_origin :: PortMarker
  p_destination :: PortMarker
  p_transshipment :: "TransshipmentMarker list"

record TrackingForMap =
  completedRoute :: "LatLng list"
  remainingRoute :: "LatLng list"
  currentPosition :: CurrentPosition
  ports :: Ports

definition toLatLng :: "Coordinates \<Rightarrow> LatLng" where
  "toLatLng p = \<lparr>lat = latitude p, lng = longitude p\<rparr>"

definition toPortMarker :: "PortInfo \<Rightarrow> PortMarker" where
  "toPortMarker p =
     \<lparr>lat = latitude (coordinates p), lng = longitude (coordinates p),
      pm_name = port_name p, pm_code = port_code p\<rparr>"

definition toTransshipmentMarker :: "TransshipmentPort \<Rightarrow> TransshipmentMarker" where
  "toTransshipmentMarker port =
     \<lparr>lat = latitude (coordinates port), lng = longitude (coordinates port),
      pm_name = port_name port, pm_code = port_code port,
      tm_city = port_city port, tm_country = port_country port,
      tm_arrivalDate = arrival_date port, tm_departureDate = departure_date port,
      tm_vesselName = vessel_at_transshipment port, tm_vesselImo = ts_vessel_imo port\<rparr>"

text \<open>\<open>shipment.id || shipment.orderNumber\<close>: the empty string is falsy.\<close>

definition shipmentKey :: "Shipment \<Rightarrow> string" where
  "shipmentKey shipment = (if s_id shipment \<noteq> [] then s_id shipment else orderNumber shipment)"

definition isAtDestination :: "ShipmentTrackingData \<Rightarrow> bool" where
  "isAtDestination trackingData =
     (remaining_route (route_coordinates trackingData) = [] \<or>
      toLowerCase (shipment_status trackingData) \<in> set [''delivered'', ''closed''])"

definition vesselPosition :: "ShipmentTrackingData \<Rightarrow> LatLng" where
  "vesselPosition trackingData =
     (let completedRoute = map toLatLng (completed_route (route_coordinates trackingData));
          remainingRoute = map toLatLng (remaining_route (route_coordinates trackingData));
          currentLat = latitude (current_position trackingData);
          currentLng = longitude (current_position trackingData);
          raw = \<lparr>lat = currentLat, lng = currentLng\<rparr>;
          isAtOrigin = (completedRoute = [])
      in if isAtOrigin \<and> remainingRoute \<noteq> [] then remainingRoute ! 0
         else if isAtDestination trackingData \<and> completedRoute \<noteq> []
           then completedRoute ! (length completedRoute - 1)
         else if remainingRoute \<noteq> []
           then (case findClosestSeaWaypoint currentLat currentLng remainingRoute of
                   Some closestWaypoint \<Rightarrow> closestWaypoint
                 | None \<Rightarrow> raw)
         else if completedRoute \<noteq> []
           then (case findClosestSeaWaypoint currentLat currentLng completedRoute of
                   Some closestWaypoint \<Rightarrow> closestWaypoint
                 | None \<Rightarrow> raw)
         else raw)"

definition getShipmentTrackingForMap ::
  "ShipmentTrackingData list \<Rightarrow> Shipment \<Rightarrow> TrackingForMap option" where
  "getShipmentTrackingForMap feed shipment =
     (case getShipmentTrackingData feed (shipmentKey shipment) of
        None \<Rightarrow> None
      | Some trackingData \<Rightarrow>
          Some \<lparr>completedRoute = map toLatLng (completed_route (route_coordinates trackingData)),
                remainingRoute = map toLatLng (remaining_route (route_coordinates trackingData)),
                currentPosition =
                  \<lparr>lat = lat (vesselPosition trackingData),
                   lng = lng (vesselPosition trackingData),
                   vesselName = vessel_name (current_position trackingData),
                   vesselImo = vessel_imo (current_position trackingData),
                   pos_status = cp_status (current_position trackingData),
                   locationName = location_name (current_position trackingData),
                   timestamp = cp_timestamp (current_position trackingData)\<rparr>,
                ports =
                  \<lparr>p_origin = toPortMarker (ri_origin (route_info trackingData)),
                   p_destination = toPortMarker (ri_destination (route_info trackingData)),
                   p_transshipment =
                     map toTransshipmentMarker (transshipment_ports (route_info trackingData))\<rparr>\<rparr>)"

text \<open>
  The rendered vessel position is the \<open>lat\<close>/\<open>lng\<close> part of the returned
  \<open>currentPosition\<close>.
\<close>

definition positionOf :: "CurrentPosition \<Rightarrow> LatLng" where
  "positionOf c = \<lparr>lat = lat c, lng = lng c\<rparr>"

text \<open>
  The property the specification asks of the in-transit vessel position, in its own
  words: \<open>p\<close> is the point of \<open>route\<close> that minimises the distance to the target, the
  first such point where several are equally near.
\<close>

definition nearestFirst :: "real \<Rightarrow> real \<Rightarrow> LatLng list \<Rightarrow> LatLng \<Rightarrow> bool" where
  "nearestFirst targetLat targetLon route p =
     (\<exists>i<length route. route ! i = p \<and>
        (\<forall>j<length route. calculateDistance targetLat targetLon (lat p) (lng p)
                             \<le> calculateDistance targetLat targetLon (lat (route ! j)) (lng (route ! j))) \<and>
        (\<forall>j<i. calculateDistance targetLat targetLon (lat p) (lng p)
                   < calculateDistance targetLat targetLon (lat (route ! j)) (lng (route ! j))))"

section \<open>Coordinate resolver\<close>

definition PORT_COORDINATES :: "(string \<times> LatLng) list" where
  "PORT_COORDINATES =
     [(''SANTOS, BRAZIL'', \<lparr>lat = -23.9608, lng = -46.3339\<rparr>),
      (''SANTOS'', \<lparr>lat = -23.9608, lng = -46.3339\<rparr>),
      (''MUNDRA'', \<lparr>lat = 22.8394, lng = 69.7197\<rparr>),
      (''MUNDRA, INDIA'', \<lparr>lat = 22.8394, lng = 69.7197\<rparr>),
      (''NHAVA SHEVA'', \<lparr>lat = 18.9480, lng = 72.9508\<rparr>),
      (''MUMBAI'', \<lparr>lat = 18.9388, lng = 72.8354\<rparr>),
      (''MUHAMMAD BIN QASIM (PORT QASIM), PAKISTAN'', \<lparr>lat = 24.7854, lng = 67.3480\<rparr>),
      (''PORT QASIM'', \<lparr>lat = 24.7854, lng = 67.3480\<rparr>),
      (''KARACHI'', \<lparr>lat = 24.8414, lng = 67.0011\<rparr>),
      (''KARACHI, PAKISTAN'', \<lparr>lat = 24.8414, lng = 67.0011\<rparr>),
      (''JEBEL ALI'', \<lparr>lat = 25.0118, lng = 55.1121\<rparr>),
      (''DUBAI'', \<lparr>lat = 25.2769, lng = 55.2962\<rparr>),
      (''DUBAI, UAE'', \<lparr>lat = 25.2769, lng = 55.2962\<rparr>),
      (''SINGAPORE'', \<lparr>lat = 1.2644, lng = 103.8224\<rparr>),
      (''SHANGHAI'', \<lparr>lat = 31.2304, lng = 121.4737\<rparr>),
      (''SHANGHAI, CHINA'', \<lparr>lat = 31.2304, lng = 121.4737\<rparr>),
      (''NINGBO'', \<lparr>lat = 29.8683, lng = 121.5440\<rparr>),
      (''NINGBO, CHINA'', \<lparr>lat = 29.8683, lng = 121.5440\<rparr>),
      (''SHENZHEN'', \<lparr>lat = 22.5431, lng = 114.0579\<rparr>),
      (''SHENZHEN, CHINA'', \<lparr>lat = 22.5431, lng = 114.0579\<rparr>),
      (''QINGDAO, CHINA'', \<lparr>lat = 36.0667, lng = 120.3833\<rparr>),
      (''LOS ANGELES'', \<lparr>lat = 33.7405, lng = -118.2720\<rparr>),
      (''LOS ANGELES, USA'', \<lparr>lat = 33.7405, lng = -118.2720\<rparr>),
      (''LONG BEACH'', \<lparr>lat = 33.7553, lng = -118.2256\<rparr>),
      (''NEW YORK'', \<lparr>lat = 40.6635, lng = -74.0354\<rparr>),
      (''NEW YORK, USA'', \<lparr>lat = 40.6635, lng = -74.0354\<rparr>),
      (''ROTTERDAM'', \<lparr>lat = 51.9244, lng = 4.4777\<rparr>),
      (''HAMBURG'', \<lparr>lat = 53.5395, lng = 9.9847\<rparr>),
      (''ANTWERP'', \<lparr>lat = 51.2894, lng = 4.3053\<rparr>)]"

definition LOCATION_COORDINATES :: "(string \<times> real \<times> real) list" where
  "LOCATION_COORDINATES =
     [(''QINGDAO, CHINA'', 36.0667, 120.3833),
      (''SHANGHAI, CHINA'', 31.2304, 121.4737),
      (''NINGBO, CHINA'', 29.8683, 121.5440),
      (''GUANGZHOU, CHINA'', 23.1291, 113.2644),
      (''SHENZHEN, CHINA'', 22.5431, 114.0579),
      (''KARACHI, PAKISTAN'', 24.8607, 67.0011),
      (''PORT QASIM, PAKISTAN'', 24.7667, 67.3333),
      (''MUHAMMAD BIN QASIM (PORT QASIM), PAKISTAN'', 24.7667, 67.3333),
      (''KHALIFA, ABU DHABI'', 24.4539, 54.3773),
      (''DUBAI, UAE'', 25.2048, 55.2708),
      (''LAEM CHABANG, THAILAND'', 13.0833, 100.8833),
      (''BANGKOK, THAILAND'', 13.7563, 100.5018),
      (''BUSAN, SOUTH KOREA'', 35.1796, 129.0756),
      (''SEOUL, SOUTH KOREA'', 37.5665, 126.9780),
      (''NORFLOK, USA'', 36.8468, -76.2852),
      (''NORFOLK, USA'', 36.8468, -76.2852),
      (''NEW YORK, USA'', 40.7128, -74.0060),
      (''LOS ANGELES, USA'', 34.0522, -118.2437),
      (''SANTOS, BRAZIL'', -23.9608, -46.3331),
      (''SAO PAULO, BRAZIL'', -23.5505, -46.6333),
      (''MUNDRA'', 22.8397, 69.7214),
      (''MUMBAI, INDIA'', 19.0760, 72.8777),
      (''MESAIEED, QATAR'', 24.9924, 51.5472),
      (''DOHA, QATAR'', 25.2854, 51.5310)]"

text \<open>
  \<open>Object.entries\<close> lists the keys in the order they are written, so the partial match
  is a search for the first entry. The keys are upper case already; the source still
  upper-cases those of the port table.
\<close>

definition portPartialMatch :: "string \<Rightarrow> string \<times> LatLng \<Rightarrow> bool" where
  "portPartialMatch normalized entry =
     (let keyNormalized = toUpperCase (fst entry)
      in includes_str normalized (firstSegment keyNormalized) \<or>
         includes_str keyNormalized (firstSegment normalized))"

definition locationPartialMatch :: "string \<Rightarrow> string \<times> real \<times> real \<Rightarrow> bool" where
  "locationPartialMatch normalized entry =
     (includes_str normalized (firstSegment (fst entry)) \<or>
      includes_str (fst entry) (firstSegment normalized))"

text \<open>
  The hash is a 32-bit signed integer: \<open>hash << 5\<close> and \<open>hash |= 0\<close> wrap to 32 bits
  (\<open>toInt32\<close>), the subtraction and the addition between them are exact. \<open>%\<close> is the
  remainder that takes the sign of the dividend, \<open>>> 3\<close> the arithmetic shift.
\<close>

definition toInt32 :: "int \<Rightarrow> int" where
  "toInt32 x = (x + 2147483648) mod 4294967296 - 2147483648"

definition jsRem :: "int \<Rightarrow> int \<Rightarrow> int" where
  "jsRem a b = (if a < 0 then - ((- a) mod \<bar>b\<bar>) else a mod \<bar>b\<bar>)"

definition charCode :: "char \<Rightarrow> int" where
  "charCode c = int (of_char c)"

definition hashStep :: "int \<Rightarrow> char \<Rightarrow> int" where
  "hashStep hash c = toInt32 (toInt32 (hash * 32) - hash + charCode c)"

definition hashString :: "string \<Rightarrow> int" where
  "hashString location = foldl hashStep 0 location"

definition hashCoordinates :: "string \<Rightarrow> real \<times> real" where
  "hashCoordinates location =
     (let hash = hashString location;
          lat = real_of_int (jsRem hash 12000) / 100 - 60;
          lng = real_of_int (jsRem (hash div 8) 34000) / 100 - 170
      in (lat, lng))"

text \<open>
  The declared result is \<open>[number, number] | null\<close>, hence the \<open>option\<close>. A table
  lookup \<open>PORT_COORDINATES[normalized]\<close> finds an own key only: \<open>normalized\<close> is upper
  case and no inherited property name is.
\<close>

definition getLocationCoordinates :: "string \<Rightarrow> (real \<times> real) option" where
  "getLocationCoordinates location =
     (let normalized = trim (toUpperCase location)
      in case map_of PORT_COORDINATES normalized of
           Some c \<Rightarrow> Some (lat c, lng c)
         | None \<Rightarrow>
             (case find (portPartialMatch normalized) PORT_COORDINATES of
                Some entry \<Rightarrow> Some (lat (snd entry), lng (snd entry))
              | None \<Rightarrow>
                  (case map_of LOCATION_COORDINATES normalized of
                     Some coords \<Rightarrow> Some coords
                   | None \<Rightarrow>
                       (case find (locationPartialMatch normalized) LOCATION_COORDINATES of
                          Some entry \<Rightarrow> Some (snd entry)
                        | None \<Rightarrow> Some (hashCoordinates location)))))"

section \<open>Milestone normalizer\<close>

record JsonMilestone =
  milestone_type_display :: string
  milestone_type :: real
  start_date :: "string option"
  jm_status :: "string option"
  jm_location :: "string option"

record JsonShipment =
  js_id :: string
  js_shipment_order_number :: string
  js_origin :: string
  js_destination :: string
  shipment_milestones :: "JsonMilestone list"
  js_status :: string

text \<open>
  \<open>parseISO\<close> belongs to the library date-fns and is a parameter: it gives the
  time value of the date, \<open>None\<close> for a string it cannot read. \<open>now\<close> is the time value of
  \<open>new Date()\<close>, one reading of the clock for the whole list. \<open>dateLe d now\<close> is
  \<open>date <= now\<close>, false for the invalid date.
\<close>

definition dateLe :: "Date \<Rightarrow> int \<Rightarrow> bool" where
  "dateLe d now = (case d of None \<Rightarrow> False | Some t \<Rightarrow> t \<le> now)"

definition completedCount ::
  "(string \<Rightarrow> Date) \<Rightarrow> int \<Rightarrow> nat \<Rightarrow> JsonMilestone list \<Rightarrow> nat" where
  "completedCount parseISO now index allMilestones =
     length (filter (\<lambda>(m, idx). idx < index \<and> start_date m \<noteq> None \<and>
                                 dateLe (parseISO (the (start_date m))) now)
               (zip allMilestones [0..<length allMilestones]))"

definition digitChar :: "nat \<Rightarrow> char" where
  "digitChar n = ''0123456789'' ! n"

function showNat :: "nat \<Rightarrow> string" where
  "showNat n = (if n < 10 then [digitChar n] else showNat (n div 10) @ [digitChar (n mod 10)])"
  by pat_completeness auto
termination
  by (relation "measure (\<lambda>n. n)") auto

definition transformMilestone ::
  "(string \<Rightarrow> Date) \<Rightarrow> int \<Rightarrow> JsonMilestone \<Rightarrow> nat \<Rightarrow> JsonMilestone list \<Rightarrow>
   string \<Rightarrow> string \<Rightarrow> Milestone" where
  "transformMilestone parseISO now jsonMilestone index allMilestones origin destination =
     (let hasDate = (start_date jsonMilestone \<noteq> None);
          date = (if hasDate then parseISO (the (start_date jsonMilestone)) else Some now);
          location =
            (if milestone_type jsonMilestone = 0 \<or> milestone_type jsonMilestone = 1 then origin
             else if milestone_type jsonMilestone = 2 \<or> milestone_type jsonMilestone = 3
               then destination
             else (case jm_location jsonMilestone of
                     None \<Rightarrow> ''In Transit''
                   | Some l \<Rightarrow> if l = [] then ''In Transit'' else l));
          status =
            (if hasDate then
               (if dateLe date now then completed
                else if completedCount parseISO now index allMilestones = index then current
                else upcoming)
             else if completedCount parseISO now index allMilestones = index then current
             else upcoming)
      in \<lparr>m_id = ''milestone-'' @ showNat index,
          m_name = milestone_type_display jsonMilestone,
          m_date = date,
          m_location = location,
          m_status = status\<rparr>)"

text \<open>
  Of the fields of \<open>Shipment\<close>, those that the functions below read. A status string
  outside the four known ones becomes \<open>pending\<close>; the names of inherited object
  properties, which the lookup in the source's status table would also find, are not
  expected as a status and are outside the model.
\<close>

definition normalizeStatus :: "string \<Rightarrow> ShipmentStatus" where
  "normalizeStatus s =
     (case map_of [(''delivered'', delivered), (''in_transit'', in_transit),
                   (''pending'', pending), (''closed'', closed)] (toLowerCase s) of
        Some st \<Rightarrow> st
      | None \<Rightarrow> pending)"

definition orUnknown :: "string \<Rightarrow> string" where
  "orUnknown s = (if s = [] then ''Unknown'' else s)"

definition transformJsonShipment :: "(string \<Rightarrow> Date) \<Rightarrow> int \<Rightarrow> JsonShipment \<Rightarrow> Shipment" where
  "transformJsonShipment parseISO now jsonShipment =
     \<lparr>s_id = js_id jsonShipment,
      orderNumber = js_shipment_order_number jsonShipment,
      s_status = normalizeStatus (js_status jsonShipment),
      s_origin = js_origin jsonShipment,
      s_destination = js_destination jsonShipment,
      milestones =
        map (\<lambda>(m, idx). transformMilestone parseISO now m idx (shipment_milestones jsonShipment)
                            (orUnknown (js_origin jsonShipment))
                            (orUnknown (js_destination jsonShipment)))
          (zip (shipment_milestones jsonShipment)
               [0..<length (shipment_milestones jsonShipment)])\<rparr>"

section \<open>Route stops and progress of the shipment card\<close>

record RouteStop =
  rs_location :: string
  rs_date :: "Date option"
  rs_status :: MilestoneStatus
  milestoneName :: string

definition isCoreMilestone :: "Milestone \<Rightarrow> bool" where
  "isCoreMilestone m =
     (let name = toLowerCase (m_name m)
      in includes_str name ''empty'' \<or> includes_str name ''departure'' \<or>
         includes_str name ''arrival'' \<or> includes_str name ''delivery'')"

definition getOrder :: "string \<Rightarrow> nat" where
  "getOrder name =
     (let n = toLowerCase name
      in if includes_str n ''empty'' then 0
         else if includes_str n ''departure'' then 1
         else if includes_str n ''arrival'' then 2
         else if includes_str n ''delivery'' then 3
         else 99)"

text \<open>
  \<open>Array.prototype.sort\<close> is stable and the comparator is the difference of the two
  orders, so the sort is the stable sort by \<open>getOrder\<close>.
\<close>

definition coreMilestones :: "Shipment \<Rightarrow> Milestone list" where
  "coreMilestones shipment =
     sort_key (\<lambda>m. getOrder (m_name m)) (filter isCoreMilestone (milestones shipment))"

definition toStop :: "Milestone \<Rightarrow> RouteStop" where
  "toStop milestone =
     \<lparr>rs_location = m_location milestone,
      rs_date = Some (m_date milestone),
      rs_status = m_status milestone,
      milestoneName = m_name milestone\<rparr>"

definition milestoneNames :: "string list" where
  "milestoneNames =
     [''Empty to shipper'', ''Departure from first POL'',
      ''Arrival at final POD'', ''Delivery to consignee'']"

definition placeholder :: "Shipment \<Rightarrow> nat \<Rightarrow> RouteStop" where
  "placeholder shipment missingIndex =
     \<lparr>rs_location = (if missingIndex < 2 then s_origin shipment else s_destination shipment),
      rs_date = None,
      rs_status = upcoming,
      milestoneName =
        (if missingIndex < length milestoneNames then milestoneNames ! missingIndex
         else ''Unknown'')\<rparr>"

function padStops :: "Shipment \<Rightarrow> RouteStop list \<Rightarrow> RouteStop list" where
  "padStops shipment stops =
     (if length stops < 4 then padStops shipment (stops @ [placeholder shipment (length stops)])
      else stops)"
  by pat_completeness auto
termination
  by (relation "measure (\<lambda>(shipment, stops). 4 - length stops)") auto

definition routeStops :: "Shipment \<Rightarrow> RouteStop list" where
  "routeStops shipment = take 4 (padStops shipment (map toStop (coreMilestones shipment)))"

text \<open>\<open>findIndex\<close> returns \<open>-1\<close> when no element satisfies the test.\<close>

fun findIndex :: "('a \<Rightarrow> bool) \<Rightarrow> 'a list \<Rightarrow> int" where
  "findIndex P [] = - 1"
| "findIndex P (x # xs) =
     (if P x then 0 else (let i = findIndex P xs in if i < 0 then - 1 else i + 1))"

definition completedStops :: "RouteStop list \<Rightarrow> int" where
  "completedStops stops = int (length (filter (\<lambda>s. rs_status s = completed) stops))"

definition currentStopIndex :: "RouteStop list \<Rightarrow> int" where
  "currentStopIndex stops = findIndex (\<lambda>s. rs_status s = current) stops"

definition lastReachedIndex :: "RouteStop list \<Rightarrow> int" where
  "lastReachedIndex stops =
     (if currentStopIndex stops \<ge> 0 then currentStopIndex stops else completedStops stops - 1)"

text \<open>The card computes a percentage, a hundred times the fraction of the stops reached.\<close>

definition progress :: "RouteStop list \<Rightarrow> real" where
  "progress stops =
     (if length stops > 0 \<and> lastReachedIndex stops \<ge> 0
      then (real_of_int (lastReachedIndex stops + 1) / real (length stops)) * 100
      else 0)"

section \<open>Waypoint synthesizer\<close>

text \<open>
  \<open>haversineTerm\<close> is the exact value of the term \<open>a\<close> that \<open>calculateSeaWaypoints\<close>
  computes in its first lines. The exact term never leaves the interval from 0 to 1,
  but the source computes it in double arithmetic, and where the exact term is 1 or
  close to it (two points near each other's antipodes) the doubles can give a value
  above 1. Then \<open>Math.sqrt(1 - a)\<close> is \<open>NaN\<close>, and so are \<open>c\<close> and \<open>distance\<close>.

  The value that the doubles give for the term is therefore a parameter of the
  synthesizer, \<open>fpTerm\<close>, a function of the two points; with exact arithmetic it is
  \<open>haversineTerm\<close>. \<open>NaN\<close> is \<open>None\<close>: \<open>mathSqrt\<close> is \<open>Math.sqrt\<close>, and
  \<open>exceeds d x\<close> is the test \<open>d > x\<close>, false for \<open>NaN\<close>.
\<close>

definition haversineTerm :: "real \<times> real \<Rightarrow> real \<times> real \<Rightarrow> real" where
  "haversineTerm point1 point2 =
     (let lat1 = fst point1 * pi / 180;
          lat2 = fst point2 * pi / 180;
          dLng = (snd point2 - snd point1) * pi / 180
      in sin ((lat2 - lat1) / 2) ^ 2 + cos lat1 * cos lat2 * sin (dLng / 2) ^ 2)"

definition mathSqrt :: "real \<Rightarrow> real option" where
  "mathSqrt x = (if x < 0 then None else Some (sqrt x))"

definition exceeds :: "real option \<Rightarrow> real \<Rightarrow> bool" where
  "exceeds d x = (case d of None \<Rightarrow> False | Some v \<Rightarrow> v > x)"

definition seaDistance ::
  "(real \<times> real \<Rightarrow> real \<times> real \<Rightarrow> real) \<Rightarrow> real \<times> real \<Rightarrow> real \<times> real \<Rightarrow> real option" where
  "seaDistance fpTerm point1 point2 =
     (let a = fpTerm point1 point2
      in case (mathSqrt a, mathSqrt (1 - a)) of
           (Some y, Some x) \<Rightarrow> Some (6371 * (2 * atan2 y x))
         | _ \<Rightarrow> None)"

definition calculateSeaWaypoints ::
  "(real \<times> real \<Rightarrow> real \<times> real \<Rightarrow> real) \<Rightarrow> real \<times> real \<Rightarrow> real \<times> real \<Rightarrow>
   (real \<times> real) list" where
  "calculateSeaWaypoints fpTerm point1 point2 =
     (let distance = seaDistance fpTerm point1 point2
      in if exceeds distance 5000 then
           (let waypoint1 = (fst point1 + (fst point2 - fst point1) * 0.33,
                             snd point1 + (snd point2 - snd point1) * 0.33);
                waypoint2 = (fst point1 + (fst point2 - fst point1) * 0.67,
                             snd point1 + (snd point2 - snd point1) * 0.67)
            in [(fst waypoint1 * 0.85, snd waypoint1), (fst waypoint2 * 0.85, snd waypoint2)])
         else if exceeds distance 2000 then
           (let waypoint = (fst point1 + (fst point2 - fst point1) * 0.5,
                            snd point1 + (snd point2 - snd point1) * 0.5)
            in [(fst waypoint * 0.9, snd waypoint)])
         else [])"

section \<open>Route of a shipment\<close>

record RoutePoint =
  rp_coords :: "real \<times> real"
  rp_milestone :: "Milestone option"
  rp_index :: nat
  rp_location :: "string option"

subsection \<open>The details feed\<close>

text \<open>
  The module imports \<open>shipmentDetails.json\<close>, one object with an \<open>id\<close> and a list of
  milestones, and reads it untyped. It is the parameter \<open>details\<close>; \<open>None\<close> stands for a
  file that is absent or not of this shape, where the function's \<open>catch\<close> returns the
  empty route. In a milestone, \<open>None\<close> is \<open>null\<close> or a missing field, and for the two
  coordinates also a value that is not a number.
\<close>

record DetailsMilestone =
  dm_location :: "string option"
  dm_start_date :: "string option"
  dm_latitude :: "real option"
  dm_longitude :: "real option"

record DetailsData =
  d_id :: string
  d_shipment_milestones :: "DetailsMilestone list"

definition noStartDate :: "DetailsMilestone \<Rightarrow> bool" where
  "noStartDate m = (case dm_start_date m of None \<Rightarrow> True | Some d \<Rightarrow> d = [])"

text \<open>
  The comparator of the sort. \<open>dateTime s\<close> is \<open>new Date(s).getTime()\<close>, a parameter,
  \<open>None\<close> for \<open>NaN\<close>; a comparison that yields \<open>NaN\<close> counts as \<open>0\<close> in a sort.
\<close>

definition compareMilestones ::
  "(string \<Rightarrow> int option) \<Rightarrow> DetailsMilestone \<Rightarrow> DetailsMilestone \<Rightarrow> int" where
  "compareMilestones dateTime a b =
     (if noStartDate a then 1
      else if noStartDate b then - 1
      else (case (dateTime (the (dm_start_date a)), dateTime (the (dm_start_date b))) of
              (Some x, Some y) \<Rightarrow> x - y
            | _ \<Rightarrow> 0))"

text \<open>
  \<open>Array.prototype.sort\<close> belongs to the engine. This comparator is not a consistent
  order (of two milestones without a date each comes after the other), and for such a
  comparator the language leaves the resulting order to the engine. The sort is
  therefore the parameter \<open>arraySort\<close> of the functions that call it.
\<close>

definition milestoneCoords :: "DetailsMilestone \<Rightarrow> (real \<times> real) option" where
  "milestoneCoords milestone =
     (case (dm_latitude milestone, dm_longitude milestone) of
        (Some la, Some lo) \<Rightarrow> Some (la, lo)
      | _ \<Rightarrow> getLocationCoordinates (the (dm_location milestone)))"

definition toPortPoint :: "DetailsMilestone \<times> nat \<Rightarrow> RoutePoint list" where
  "toPortPoint mi =
     (case milestoneCoords (fst mi) of
        Some coords \<Rightarrow>
          [\<lparr>rp_coords = coords, rp_milestone = None, rp_index = snd mi,
            rp_location = Some (orUnknown (the (dm_location (fst mi))))\<rparr>]
      | None \<Rightarrow> [])"

definition seaPoints :: "nat \<Rightarrow> (real \<times> real) list \<Rightarrow> RoutePoint list" where
  "seaPoints index seaWaypoints =
     map (\<lambda>(waypoint, waypointIndex).
            \<lparr>rp_coords = waypoint, rp_milestone = None,
             rp_index = index * 100 + waypointIndex + 1,
             rp_location = Some ''Sea Route''\<rparr>)
       (zip seaWaypoints [0..<length seaWaypoints])"

text \<open>
  The second \<open>forEach\<close>: each port point, followed by the sea waypoints to the next one
  unless it is the last. \<open>index\<close> is the position of the first point of the list.
\<close>

fun withSeaWaypoints ::
  "(real \<times> real \<Rightarrow> real \<times> real \<Rightarrow> real) \<Rightarrow> nat \<Rightarrow> RoutePoint list \<Rightarrow> RoutePoint list" where
  "withSeaWaypoints fpTerm index [] = []"
| "withSeaWaypoints fpTerm index [portPoint] = [portPoint]"
| "withSeaWaypoints fpTerm index (portPoint # nextPort # rest) =
     portPoint #
     seaPoints index (calculateSeaWaypoints fpTerm (rp_coords portPoint) (rp_coords nextPort)) @
     withSeaWaypoints fpTerm (index + 1) (nextPort # rest)"

type_synonym MilestoneSort =
  "(DetailsMilestone \<Rightarrow> DetailsMilestone \<Rightarrow> int) \<Rightarrow> DetailsMilestone list \<Rightarrow>
   DetailsMilestone list"

definition getShipmentRouteCoordinatesFromDetails ::
  "(string \<Rightarrow> int option) \<Rightarrow> MilestoneSort \<Rightarrow> (real \<times> real \<Rightarrow> real \<times> real \<Rightarrow> real) \<Rightarrow>
   DetailsData option \<Rightarrow> string \<Rightarrow> RoutePoint list" where
  "getShipmentRouteCoordinatesFromDetails dateTime arraySort fpTerm details shipmentId =
     (case details of
        None \<Rightarrow> []
      | Some detailsData \<Rightarrow>
          if d_id detailsData \<noteq> shipmentId then []
          else
            (let milestonesWithLocation =
                   arraySort (compareMilestones dateTime)
                     (filter (\<lambda>m. dm_location m \<noteq> None) (d_shipment_milestones detailsData));
                 portPoints =
                   concat (map toPortPoint
                     (zip milestonesWithLocation [0..<length milestonesWithLocation]))
             in withSeaWaypoints fpTerm 0 portPoints))"

subsection \<open>The calculated route\<close>

definition extractCountry :: "string \<Rightarrow> string" where
  "extractCountry location =
     (let parts = map trim (splitComma location)
      in if last parts \<noteq> [] then last parts else location)"

definition coastalPoints :: "bool \<Rightarrow> (string \<times> real \<times> real) list" where
  "coastalPoints isOrigin =
     [(''CHINA'', if isOrigin then (31.2304, 121.4737) else (36.0667, 120.3833)),
      (''PAKISTAN'', 24.8607, 67.0011),
      (''UAE'', 25.2048, 55.2708),
      (''UNITED ARAB EMIRATES'', 25.2048, 55.2708),
      (''THAILAND'', 13.0833, 100.8833),
      (''SOUTH KOREA'', 35.1796, 129.0756),
      (''KOREA'', 35.1796, 129.0756),
      (''USA'', if isOrigin then (34.0522, -118.2437) else (40.7128, -74.0060)),
      (''UNITED STATES'', if isOrigin then (34.0522, -118.2437) else (40.7128, -74.0060)),
      (''BRAZIL'', -23.9608, -46.3331),
      (''INDIA'', 19.0760, 72.8777),
      (''QATAR'', 25.2854, 51.5310)]"

definition getCoastalPoint :: "string \<Rightarrow> bool \<Rightarrow> (real \<times> real) option" where
  "getCoastalPoint country isOrigin =
     (let normalized = trim (toUpperCase country)
      in case map_of (coastalPoints isOrigin) normalized of
           Some coords \<Rightarrow> Some coords
         | None \<Rightarrow>
             (case find (\<lambda>(key, coords). includes_str normalized key \<or> includes_str key normalized)
                     (coastalPoints isOrigin) of
                Some entry \<Rightarrow> Some (snd entry)
              | None \<Rightarrow> None))"

definition orElse :: "'a option \<Rightarrow> 'a \<Rightarrow> 'a" where
  "orElse x d = (case x of Some v \<Rightarrow> v | None \<Rightarrow> d)"

definition farApart :: "real \<times> real \<Rightarrow> real \<times> real \<Rightarrow> bool" where
  "farApart p q = (\<bar>fst p - fst q\<bar> > 0.5 \<or> \<bar>snd p - snd q\<bar> > 0.5)"

text \<open>
  The points are pushed in this order and numbered as they are pushed, from \<open>0\<close>; none
  has a \<open>location\<close>.
\<close>

definition calculatedRoute ::
  "(real \<times> real \<Rightarrow> real \<times> real \<Rightarrow> real) \<Rightarrow> Shipment \<Rightarrow> RoutePoint list" where
  "calculatedRoute fpTerm shipment =
     (case (getLocationCoordinates (s_origin shipment),
            getLocationCoordinates (s_destination shipment)) of
        (Some originCoords, Some destCoords) \<Rightarrow>
          (let originCountry = extractCountry (s_origin shipment);
               destCountry = extractCountry (s_destination shipment);
               originCoastal = orElse (getCoastalPoint originCountry True) originCoords;
               destCoastal = orElse (getCoastalPoint destCountry False) destCoords;
               points =
                 [originCoords] @
                 (if farApart originCoastal originCoords then [originCoastal] else []) @
                 calculateSeaWaypoints fpTerm originCoastal destCoastal @
                 (if farApart destCoastal destCoords then [destCoastal] else []) @
                 [destCoords]
           in map (\<lambda>(coords, index).
                     \<lparr>rp_coords = coords, rp_milestone = None, rp_index = index,
                      rp_location = None\<rparr>)
                (zip points [0..<length points]))
      | _ \<Rightarrow> [])"

subsection \<open>The three tiers\<close>

text \<open>
  The points of the tracking feed, the completed route before the remaining one,
  numbered through both.
\<close>

definition trackingRoute :: "ShipmentTrackingData \<Rightarrow> RoutePoint list" where
  "trackingRoute trackingData =
     (let labelled =
            map (\<lambda>point. (point, ''Completed Route''))
              (completed_route (route_coordinates trackingData)) @
            map (\<lambda>point. (point, ''Remaining Route''))
              (remaining_route (route_coordinates trackingData))
      in map (\<lambda>((point, label), index).
                \<lparr>rp_coords = (latitude point, longitude point), rp_milestone = None,
                 rp_index = index, rp_location = Some label\<rparr>)
           (zip labelled [0..<length labelled]))"

definition getShipmentRouteCoordinates ::
  "ShipmentTrackingData list \<Rightarrow> (string \<Rightarrow> int option) \<Rightarrow> MilestoneSort \<Rightarrow>
   (real \<times> real \<Rightarrow> real \<times> real \<Rightarrow> real) \<Rightarrow> DetailsData option \<Rightarrow> Shipment \<Rightarrow>
   RoutePoint list" where
  "getShipmentRouteCoordinates feed dateTime arraySort fpTerm details shipment =
     (let fromTracking =
            (case getShipmentTrackingData feed (shipmentKey shipment) of
               Some trackingData \<Rightarrow> trackingRoute trackingData
             | None \<Rightarrow> [])
      in if fromTracking \<noteq> [] then fromTracking
         else
           (let detailsRoute =
                  getShipmentRouteCoordinatesFromDetails dateTime arraySort fpTerm details
                    (s_id shipment)
            in if detailsRoute \<noteq> [] then detailsRoute
               else calculatedRoute fpTerm shipment))"

section \<open>Example inputs\<close>

definition examplePort :: PortInfo where
  "examplePort = \<lparr>port_name = ''Karachi'', port_code = ''PKKHI'',
                   coordinates = \<lparr>latitude = 0, longitude = 0\<rparr>\<rparr>"

definition exampleTracking :: "string \<Rightarrow> Coordinates list \<Rightarrow> Coordinates list \<Rightarrow> ShipmentTrackingData" where
  "exampleTracking st done todo =
     \<lparr>shipment_order_number = ''ORD-1'', shipment_id = ''S1'', shipment_status = st,
      route_info = \<lparr>ri_origin = examplePort, ri_destination = examplePort,
                    transshipment_ports = [], route_type = direct\<rparr>,
      route_coordinates = \<lparr>completed_route = done, remaining_route = todo\<rparr>,
      current_position = \<lparr>latitude = 0, longitude = 0, location_name = ''At sea'',
                          cp_timestamp = ''2025-01-01T00:00:00Z'', vessel_name = None,
                          vessel_imo = None, cp_status = ''underway'', current_leg = 1\<rparr>\<rparr>"

definition exampleShipment :: Shipment where
  "exampleShipment = \<lparr>s_id = ''S1'', orderNumber = ''ORD-1'', s_status = in_transit,
                       s_origin = ''Karachi, Pakistan'', s_destination = ''Santos, Brazil'',
                       milestones = []\<rparr>"

definition point :: "real \<Rightarrow> real \<Rightarrow> Coordinates" where
  "point a b = \<lparr>latitude = a, longitude = b\<rparr>"

text \<open>Scenario D of the specification: four milestones, the first with a date.\<close>

definition scenarioD :: JsonShipment where
  "scenarioD =
     \<lparr>js_id = ''S1'', js_shipment_order_number = ''ORD-1'',
      js_origin = ''Karachi, Pakistan'', js_destination = ''Santos, Brazil'',
      shipment_milestones =
        [\<lparr>milestone_type_display = ''Empty to shipper'', milestone_type = 0,
          start_date = Some ''2025-01-01'', jm_status = None, jm_location = None\<rparr>,
         \<lparr>milestone_type_display = ''Departure from first POL'', milestone_type = 1,
          start_date = None, jm_status = None, jm_location = None\<rparr>,
         \<lparr>milestone_type_display = ''Arrival at final POD'', milestone_type = 2,
          start_date = None, jm_status = None, jm_location = None\<rparr>,
         \<lparr>milestone_type_display = ''Delivery to consignee'', milestone_type = 3,
          start_date = None, jm_status = None, jm_location = None\<rparr>],
      js_status = ''in_transit''\<rparr>"

text \<open>A shipment whose only dated milestone is the delivery.\<close>

definition deliveredOnly :: JsonShipment where
  "deliveredOnly =
     \<lparr>js_id = ''S2'', js_shipment_order_number = ''ORD-2'',
      js_origin = ''Karachi, Pakistan'', js_destination = ''Santos, Brazil'',
      shipment_milestones =
        [\<lparr>milestone_type_display = ''Empty to shipper'', milestone_type = 0,
          start_date = None, jm_status = None, jm_location = None\<rparr>,
         \<lparr>milestone_type_display = ''Departure from first POL'', milestone_type = 1,
          start_date = None, jm_status = None, jm_location = None\<rparr>,
         \<lparr>milestone_type_display = ''Arrival at final POD'', milestone_type = 2,
          start_date = None, jm_status = None, jm_location = None\<rparr>,
         \<lparr>milestone_type_display = ''Delivery to consignee'', milestone_type = 3,
          start_date = Some ''2025-01-01'', jm_status = None, jm_location = None\<rparr>],
      js_status = ''delivered''\<rparr>"

text \<open>A shipment with five milestones, one of them an arrival at a transshipment port.\<close>

definition fiveMilestones :: JsonShipment where
  "fiveMilestones =
     \<lparr>js_id = ''S3'', js_shipment_order_number = ''ORD-3'',
      js_origin = ''Karachi, Pakistan'', js_destination = ''Santos, Brazil'',
      shipment_milestones =
        [\<lparr>milestone_type_display = ''Empty to shipper'', milestone_type = 0,
          start_date = Some ''2025-01-01'', jm_status = None, jm_location = None\<rparr>,
         \<lparr>milestone_type_display = ''Departure from first POL'', milestone_type = 1,
          start_date = None, jm_status = None, jm_location = None\<rparr>,
         \<lparr>milestone_type_display = ''Arrival at transshipment port'', milestone_type = 4,
          start_date = None, jm_status = None, jm_location = Some ''Singapore''\<rparr>,
         \<lparr>milestone_type_display = ''Arrival at final POD'', milestone_type = 2,
          start_date = None, jm_status = None, jm_location = None\<rparr>,
         \<lparr>milestone_type_display = ''Delivery to consignee'', milestone_type = 3,
          start_date = None, jm_status = None, jm_location = None\<rparr>],
      js_status = ''in_transit''\<rparr>"

text \<open>A shipment with a single milestone.\<close>

definition oneMilestone :: JsonShipment where
  "oneMilestone =
     \<lparr>js_id = ''S4'', js_shipment_order_number = ''ORD-4'',
      js_origin = ''Karachi, Pakistan'', js_destination = ''Santos, Brazil'',
      shipment_milestones =
        [\<lparr>milestone_type_display = ''Empty to shipper'', milestone_type = 0,
          start_date = Some ''2025-01-01'', jm_status = None, jm_location = None\<rparr>],
      js_status = ''pending''\<rparr>"

text \<open>A shipment whose single milestone is the delivery.\<close>

definition singleDelivery :: JsonShipment where
  "singleDelivery =
     \<lparr>js_id = ''S5'', js_shipment_order_number = ''ORD-5'',
      js_origin = ''Karachi, Pakistan'', js_destination = ''Santos, Brazil'',
      shipment_milestones =
        [\<lparr>milestone_type_display = ''Delivery to consignee'', milestone_type = 3,
          start_date = Some ''2025-01-01'', jm_status = None, jm_location = None\<rparr>],
      js_status = ''delivered''\<rparr>"

text \<open>
  A details feed for the example shipment, with one located milestone. A list of one
  element is its own sorting, so the examples pass the sort that returns its list as
  it is.
\<close>

definition exampleDetails :: DetailsData where
  "exampleDetails =
     \<lparr>d_id = ''S1'',
      d_shipment_milestones =
        [\<lparr>dm_location = Some ''Jebel Ali'', dm_start_date = Some ''2025-01-01'',
          dm_latitude = Some 25, dm_longitude = Some 55\<rparr>]\<rparr>"

section \<open>The specification's notions\<close>

text \<open>
  A milestone record has a date and that date is not after \<open>now\<close>.
\<close>

definition hasPastDate :: "(string \<Rightarrow> Date) \<Rightarrow> int \<Rightarrow> JsonMilestone \<Rightarrow> bool" where
  "hasPastDate parseISO now m =
     (case start_date m of None \<Rightarrow> False | Some s \<Rightarrow> dateLe (parseISO s) now)"

text \<open>The count of the milestones before position \<open>i\<close> that are completed.\<close>

definition completedBefore :: "nat \<Rightarrow> Milestone list \<Rightarrow> nat" where
  "completedBefore i ms = length (filter (\<lambda>m. m_status m = completed) (take i ms))"

text \<open>
  The two waypoints of a long route as the specification words them: the marks at one
  third and two thirds between the end points, the latitude then multiplied by 0.85.
\<close>

definition thirdsWaypoints :: "real \<times> real \<Rightarrow> real \<times> real \<Rightarrow> (real \<times> real) list" where
  "thirdsWaypoints a b =
     [((fst a + (fst b - fst a) * (1 / 3)) * 0.85, snd a + (snd b - snd a) * (1 / 3)),
      ((fst a + (fst b - fst a) * (2 / 3)) * 0.85, snd a + (snd b - snd a) * (2 / 3))]"

section \<open>Properties of the string and distance helpers\<close>

text \<open>\<open>firstSegment\<close> is the first element of the split at commas.\<close>

lemma splitComma_nonempty: "splitComma s \<noteq> []"
  by (induction s) (auto split: list.splits)

lemma firstSegment_splitComma: "firstSegment s = hd (splitComma s)"
  using splitComma_nonempty
  by (induction s) (auto simp: firstSegment_def split: list.splits)

text \<open>
  The argument of the two square roots of the haversine formula lies between 0 and 1
  for all coordinates, so the roots are those of non-negative numbers.
\<close>

lemma haversine_core_range:
  fixes x y h :: real
  assumes "0 \<le> h" "h \<le> 1"
  shows "0 \<le> sin ((y - x) / 2) * sin ((y - x) / 2) + cos x * cos y * h \<and>
         sin ((y - x) / 2) * sin ((y - x) / 2) + cos x * cos y * h \<le> 1"
proof -
  define C where "C = cos x * cos y"
  define S where "S = sin x * sin y"
  have "cos (2 * ((y - x) / 2)) = 1 - 2 * (sin ((y - x) / 2))\<^sup>2"
    by (rule cos_double_sin)
  moreover have "2 * ((y - x) / 2) = y - x" by simp
  ultimately have "cos (y - x) = 1 - 2 * (sin ((y - x) / 2) * sin ((y - x) / 2))"
    by (simp only: power2_eq_square)
  then have sq: "sin ((y - x) / 2) * sin ((y - x) / 2) = (1 - cos (y - x)) / 2"
    by (simp add: field_simps)
  have d: "cos (y - x) = C + S" by (simp add: cos_diff C_def S_def mult.commute)
  have a: "cos (y + x) = C - S" by (simp add: cos_add C_def S_def mult.commute)
  have b1: "C + S \<le> 1" "- 1 \<le> C + S" using cos_le_one [of "y - x"] cos_ge_minus_one [of "y - x"] d by simp_all
  have b2: "C - S \<le> 1" "- 1 \<le> C - S" using cos_le_one [of "y + x"] cos_ge_minus_one [of "y + x"] a by simp_all
  define P where "P = C * h"
  have expr: "sin ((y - x) / 2) * sin ((y - x) / 2) + cos x * cos y * h = (1 - (C + S)) / 2 + P"
    by (simp add: sq d C_def P_def)
  show ?thesis
  proof (cases "0 \<le> C")
    case True
    then have "0 \<le> P" "P \<le> C"
      using assms by (simp_all add: P_def mult_left_le)
    with b1 b2 have "0 \<le> (1 - (C + S)) / 2 + P" "(1 - (C + S)) / 2 + P \<le> 1"
      by (simp_all add: field_simps)
    then show ?thesis unfolding expr by simp
  next
    case False
    then have "C * h \<le> 0" "C * 1 \<le> C * h"
      using assms by (simp_all add: mult_le_0_iff mult_left_mono_neg)
    then have "P \<le> 0" "C \<le> P" by (simp_all add: P_def)
    with b1 b2 have "0 \<le> (1 - (C + S)) / 2 + P" "(1 - (C + S)) / 2 + P \<le> 1"
      by (simp_all add: field_simps)
    then show ?thesis unfolding expr by simp
  qed
qed

lemma sin_square_range: "0 \<le> sin (z::real) * sin z \<and> sin z * sin z \<le> 1"
proof -
  have "(sin z)\<^sup>2 \<le> 1" using sin_squared_eq [of z] zero_le_power2 [of "cos z"] by linarith
  then show ?thesis by (simp add: power2_eq_square)
qed

lemma haversine_argument_range:
  "0 \<le> sin ((lat2 - lat1) * pi / 180 / 2) * sin ((lat2 - lat1) * pi / 180 / 2) +
        cos (lat1 * pi / 180) * cos (lat2 * pi / 180) *
        sin ((lon2 - lon1) * pi / 180 / 2) * sin ((lon2 - lon1) * pi / 180 / 2) \<and>
   sin ((lat2 - lat1) * pi / 180 / 2) * sin ((lat2 - lat1) * pi / 180 / 2) +
        cos (lat1 * pi / 180) * cos (lat2 * pi / 180) *
        sin ((lon2 - lon1) * pi / 180 / 2) * sin ((lon2 - lon1) * pi / 180 / 2) \<le> 1"
proof -
  have e: "(lat2 - lat1) * pi / 180 = lat2 * pi / 180 - lat1 * pi / 180"
    by (simp add: left_diff_distrib diff_divide_distrib)
  from haversine_core_range [OF sin_square_range [of "(lon2 - lon1) * pi / 180 / 2", THEN conjunct1]
      sin_square_range [of "(lon2 - lon1) * pi / 180 / 2", THEN conjunct2],
      of "lat2 * pi / 180" "lat1 * pi / 180"]
  show ?thesis unfolding e by (simp only: mult.assoc)
qed

section \<open>Properties of the vessel position\<close>

lemma closestLoop_cases:
  fixes tlat tlon :: real
  defines "d \<equiv> \<lambda>q. calculateDistance tlat tlon (lat q) (lng q)"
  shows "(closestLoop tlat tlon ps m c = c \<and> (\<forall>q\<in>set ps. \<not> belowMin (d q) m)) \<or>
         (\<exists>i<length ps. closestLoop tlat tlon ps m c = ps ! i \<and> belowMin (d (ps ! i)) m \<and>
            (\<forall>j<length ps. d (ps ! i) \<le> d (ps ! j)) \<and> (\<forall>j<i. d (ps ! i) < d (ps ! j)))"
proof (induction ps arbitrary: m c)
  case Nil
  then show ?case by simp
next
  case (Cons p rest)
  show ?case
  proof (cases "belowMin (d p) m")
    case True
    then have run: "closestLoop tlat tlon (p # rest) m c = closestLoop tlat tlon rest (Some (d p)) p"
      by (simp add: d_def)
    from Cons.IH [of "Some (d p)" p] show ?thesis
    proof (elim disjE conjE exE)
      assume a: "closestLoop tlat tlon rest (Some (d p)) p = p"
        and b: "\<forall>q\<in>set rest. \<not> belowMin (d q) (Some (d p))"
      have "\<forall>j<length (p # rest). d p \<le> d ((p # rest) ! j)"
      proof (intro allI impI)
        fix j assume "j < length (p # rest)"
        then show "d p \<le> d ((p # rest) ! j)"
          using b by (cases j) (auto simp: belowMin_def not_less)
      qed
      then have "0 < length (p # rest) \<and> closestLoop tlat tlon (p # rest) m c = (p # rest) ! 0 \<and>
          belowMin (d ((p # rest) ! 0)) m \<and>
          (\<forall>j<length (p # rest). d ((p # rest) ! 0) \<le> d ((p # rest) ! j)) \<and>
          (\<forall>j<0. d ((p # rest) ! 0) < d ((p # rest) ! j))"
        using run a True by simp
      then show ?thesis by blast
    next
      fix i
      assume i: "i < length rest"
        and r: "closestLoop tlat tlon rest (Some (d p)) p = rest ! i"
        and lt: "belowMin (d (rest ! i)) (Some (d p))"
        and mn: "\<forall>j<length rest. d (rest ! i) \<le> d (rest ! j)"
        and fs: "\<forall>j<i. d (rest ! i) < d (rest ! j)"
      from lt have lt': "d (rest ! i) < d p" by (simp add: belowMin_def)
      have below: "belowMin (d (rest ! i)) m"
        using True lt' by (auto simp: belowMin_def split: option.splits)
      have mn': "\<forall>j<length (p # rest). d (rest ! i) \<le> d ((p # rest) ! j)"
      proof (intro allI impI)
        fix j assume "j < length (p # rest)"
        then show "d (rest ! i) \<le> d ((p # rest) ! j)"
          using mn lt' by (cases j) auto
      qed
      have fs': "\<forall>j<Suc i. d (rest ! i) < d ((p # rest) ! j)"
      proof (intro allI impI)
        fix j assume "j < Suc i"
        then show "d (rest ! i) < d ((p # rest) ! j)"
          using fs lt' by (cases j) auto
      qed
      have "Suc i < length (p # rest) \<and> closestLoop tlat tlon (p # rest) m c = (p # rest) ! Suc i \<and>
          belowMin (d ((p # rest) ! Suc i)) m \<and>
          (\<forall>j<length (p # rest). d ((p # rest) ! Suc i) \<le> d ((p # rest) ! j)) \<and>
          (\<forall>j<Suc i. d ((p # rest) ! Suc i) < d ((p # rest) ! j))"
        using i run r below mn' fs' by simp
      then show ?thesis by blast
    qed
  next
    case False
    then have run: "closestLoop tlat tlon (p # rest) m c = closestLoop tlat tlon rest m c"
      by (simp add: d_def)
    from False obtain y where y: "m = Some y" "y \<le> d p"
      by (auto simp: belowMin_def split: option.splits)
    from Cons.IH [of m c] show ?thesis
    proof (elim disjE conjE exE)
      assume "closestLoop tlat tlon rest m c = c" "\<forall>q\<in>set rest. \<not> belowMin (d q) m"
      then show ?thesis using run False by simp
    next
      fix i
      assume i: "i < length rest"
        and r: "closestLoop tlat tlon rest m c = rest ! i"
        and lt: "belowMin (d (rest ! i)) m"
        and mn: "\<forall>j<length rest. d (rest ! i) \<le> d (rest ! j)"
        and fs: "\<forall>j<i. d (rest ! i) < d (rest ! j)"
      from lt y have lt': "d (rest ! i) < d p" by (simp add: belowMin_def)
      have mn': "\<forall>j<length (p # rest). d (rest ! i) \<le> d ((p # rest) ! j)"
      proof (intro allI impI)
        fix j assume "j < length (p # rest)"
        then show "d (rest ! i) \<le> d ((p # rest) ! j)"
          using mn lt' by (cases j) auto
      qed
      have fs': "\<forall>j<Suc i. d (rest ! i) < d ((p # rest) ! j)"
      proof (intro allI impI)
        fix j assume "j < Suc i"
        then show "d (rest ! i) < d ((p # rest) ! j)"
          using fs lt' by (cases j) auto
      qed
      have "Suc i < length (p # rest) \<and> closestLoop tlat tlon (p # rest) m c = (p # rest) ! Suc i \<and>
          belowMin (d ((p # rest) ! Suc i)) m \<and>
          (\<forall>j<length (p # rest). d ((p # rest) ! Suc i) \<le> d ((p # rest) ! j)) \<and>
          (\<forall>j<Suc i. d ((p # rest) ! Suc i) < d ((p # rest) ! j))"
        using i run r lt mn' fs' by simp
      then show ?thesis by blast
    qed
  qed
qed

lemma findClosestSeaWaypoint_nearestFirst:
  assumes "routePoints \<noteq> []"
  shows "\<exists>p. findClosestSeaWaypoint tlat tlon routePoints = Some p \<and> nearestFirst tlat tlon routePoints p"
proof -
  from assms obtain q qs where qs: "routePoints = q # qs" by (cases routePoints) auto
  have "\<not> (\<forall>x\<in>set routePoints. \<not> belowMin (calculateDistance tlat tlon (lat x) (lng x)) None)"
    using qs by (auto simp: belowMin_def)
  with closestLoop_cases [of tlat tlon routePoints None q]
  obtain i where "i < length routePoints" "closestLoop tlat tlon routePoints None q = routePoints ! i"
     "\<forall>j<length routePoints. calculateDistance tlat tlon (lat (routePoints ! i)) (lng (routePoints ! i))
          \<le> calculateDistance tlat tlon (lat (routePoints ! j)) (lng (routePoints ! j))"
     "\<forall>j<i. calculateDistance tlat tlon (lat (routePoints ! i)) (lng (routePoints ! i))
          < calculateDistance tlat tlon (lat (routePoints ! j)) (lng (routePoints ! j))"
    by blast
  then have "nearestFirst tlat tlon routePoints (closestLoop tlat tlon routePoints None q)"
    unfolding nearestFirst_def by auto
  then show ?thesis by (simp add: findClosestSeaWaypoint_def qs)
qed

lemma findClosestSeaWaypoint_member:
  "findClosestSeaWaypoint tlat tlon routePoints = Some p \<Longrightarrow> p \<in> set routePoints"
proof (cases "routePoints = []")
  case True
  assume "findClosestSeaWaypoint tlat tlon routePoints = Some p"
  with True show ?thesis by (simp add: findClosestSeaWaypoint_def)
next
  case False
  assume eq: "findClosestSeaWaypoint tlat tlon routePoints = Some p"
  from findClosestSeaWaypoint_nearestFirst [OF False, of tlat tlon] eq
  have "nearestFirst tlat tlon routePoints p" by auto
  then show ?thesis unfolding nearestFirst_def by auto
qed






lemma distance_half_turn: "calculateDistance 0 0 0 180 = 6371 * pi"
  by (simp add: calculateDistance_def atan2_def Let_def)

lemma exampleTracking_sel:
  "completed_route (route_coordinates (exampleTracking st done todo)) = done"
  "remaining_route (route_coordinates (exampleTracking st done todo)) = todo"
  "shipment_status (exampleTracking st done todo) = st"
  "latitude (current_position (exampleTracking st done todo)) = 0"
  "longitude (current_position (exampleTracking st done todo)) = 0"
  "shipment_id (exampleTracking st done todo) = ''S1''"
  by (simp_all add: exampleTracking_def)



text \<open>
  Claim C10. For a shipment that the tracking feed knows, the returned vessel position is
  a point of the completed route, a point of the remaining route, or the reported
  current position itself.
\<close>

theorem snapped_position_membership:
  assumes "getShipmentTrackingData feed (shipmentKey shipment) = Some t"
  shows "\<exists>r. getShipmentTrackingForMap feed shipment = Some r \<and>
           (positionOf (currentPosition r) \<in> set (completedRoute r) \<or>
            positionOf (currentPosition r) \<in> set (remainingRoute r) \<or>
            positionOf (currentPosition r) =
              \<lparr>lat = latitude (current_position t), lng = longitude (current_position t)\<rparr>)"
proof -
  obtain r where r0: "getShipmentTrackingForMap feed shipment = Some r"
    using assms by (simp add: getShipmentTrackingForMap_def)
  let ?c = "map toLatLng (completed_route (route_coordinates t))"
  let ?m = "map toLatLng (remaining_route (route_coordinates t))"
  let ?raw = "\<lparr>lat = latitude (current_position t), lng = longitude (current_position t)\<rparr>"
  have r: "completedRoute r = ?c" "remainingRoute r = ?m"
      "positionOf (currentPosition r) = vesselPosition t"
    using assms r0 by (auto simp: getShipmentTrackingForMap_def positionOf_def)
  have "vesselPosition t \<in> set ?c \<or> vesselPosition t \<in> set ?m \<or> vesselPosition t = ?raw"
  proof (cases "?c = []")
    case cempty: True
    show ?thesis
    proof (cases "?m = []")
      case True
      with cempty show ?thesis by (simp add: vesselPosition_def Let_def)
    next
      case False
      then have "0 < length ?m" by simp
      then have "?m ! 0 \<in> set ?m" by (rule nth_mem)
      with cempty False show ?thesis by (simp add: vesselPosition_def Let_def del: set_map)
    qed
  next
    case cne: False
    then have "length ?c - 1 < length ?c" by simp
    then have lastc: "?c ! (length ?c - 1) \<in> set ?c" by (rule nth_mem)
    show ?thesis
    proof (cases "isAtDestination t")
      case True
      with cne lastc show ?thesis by (simp add: vesselPosition_def Let_def del: set_map)
    next
      case nd: False
      show ?thesis
      proof (cases "?m = []")
        case True
        then have "isAtDestination t" by (simp add: isAtDestination_def)
        with nd show ?thesis by simp
      next
        case False
        from findClosestSeaWaypoint_nearestFirst [OF False]
        obtain p where p: "findClosestSeaWaypoint (latitude (current_position t))
            (longitude (current_position t)) ?m = Some p" by blast
        from findClosestSeaWaypoint_member [OF p] have "p \<in> set ?m" .
        moreover have "vesselPosition t = p"
          using cne nd False p by (simp add: vesselPosition_def Let_def)
        ultimately show ?thesis by simp
      qed
    qed
  qed
  with r0 r show ?thesis by simp
qed

theorem snapped_position_membership_witness:
  "getShipmentTrackingData [exampleTracking ''in_transit'' [point 5 5] [point 0 180, point 0 0]]
       (shipmentKey exampleShipment)
     = Some (exampleTracking ''in_transit'' [point 5 5] [point 0 180, point 0 0]) \<and>
   (\<exists>r. getShipmentTrackingForMap
           [exampleTracking ''in_transit'' [point 5 5] [point 0 180, point 0 0]] exampleShipment
         = Some r \<and>
        (positionOf (currentPosition r) \<in> set (completedRoute r) \<or>
         positionOf (currentPosition r) \<in> set (remainingRoute r) \<or>
         positionOf (currentPosition r) = \<lparr>lat = 0, lng = 0\<rparr>))"
proof -
  let ?C = "exampleTracking ''in_transit'' [point 5 5] [point 0 180, point 0 0]"
  have key: "shipmentKey exampleShipment = ''S1''"
    by (simp add: shipmentKey_def exampleShipment_def)
  have hC: "getShipmentTrackingData [?C] (shipmentKey exampleShipment) = Some ?C"
    by (simp add: key getShipmentTrackingData_def exampleTracking_sel)
  from snapped_position_membership [OF hC] hC show ?thesis
    by (simp add: exampleTracking_sel)
qed

section \<open>Properties of the waypoint synthesizer\<close>

text \<open>
  With exact arithmetic the term lies between 0 and 1, the distance is the haversine
  distance \<open>calculateDistance\<close>, and the number of waypoints follows the two thresholds.
\<close>

lemma haversineTerm_range:
  "0 \<le> haversineTerm point1 point2 \<and> haversineTerm point1 point2 \<le> 1"
proof -
  have e: "(fst point2 * pi / 180 - fst point1 * pi / 180) / 2 =
           (fst point2 - fst point1) * pi / 180 / 2"
    by (simp add: left_diff_distrib diff_divide_distrib)
  from haversine_argument_range [of "fst point2" "fst point1" "snd point2" "snd point1"]
  show ?thesis
    unfolding haversineTerm_def Let_def power2_eq_square e by (simp only: mult.assoc)
qed

lemma haversineTerm_calculateDistance:
  "6371 * (2 * atan2 (sqrt (haversineTerm point1 point2)) (sqrt (1 - haversineTerm point1 point2)))
     = calculateDistance (fst point1) (snd point1) (fst point2) (snd point2)"
proof -
  have e: "fst point2 * pi / 180 - fst point1 * pi / 180 = (fst point2 - fst point1) * pi / 180"
    by (simp add: left_diff_distrib diff_divide_distrib)
  show ?thesis
    unfolding haversineTerm_def calculateDistance_def Let_def power2_eq_square e
    by (simp only: mult.assoc)
qed

lemma seaDistance_in_range:
  assumes "0 \<le> fpTerm point1 point2" "fpTerm point1 point2 \<le> 1"
  shows "seaDistance fpTerm point1 point2 =
     Some (6371 * (2 * atan2 (sqrt (fpTerm point1 point2)) (sqrt (1 - fpTerm point1 point2))))"
  using assms by (simp add: seaDistance_def mathSqrt_def Let_def)

lemma seaDistance_out_of_range:
  assumes "fpTerm point1 point2 < 0 \<or> 1 < fpTerm point1 point2"
  shows "seaDistance fpTerm point1 point2 = None"
  using assms by (auto simp: seaDistance_def mathSqrt_def Let_def)

lemma seaDistance_exact:
  "seaDistance haversineTerm point1 point2 =
     Some (calculateDistance (fst point1) (snd point1) (fst point2) (snd point2))"
proof -
  from haversineTerm_range [of point1 point2]
  have "seaDistance haversineTerm point1 point2 =
     Some (6371 * (2 * atan2 (sqrt (haversineTerm point1 point2))
                         (sqrt (1 - haversineTerm point1 point2))))"
    by (intro seaDistance_in_range) simp_all
  then show ?thesis by (simp only: haversineTerm_calculateDistance)
qed

lemma calculateSeaWaypoints_count:
  "length (calculateSeaWaypoints fpTerm a b) =
     (case seaDistance fpTerm a b of
        None \<Rightarrow> 0
      | Some d \<Rightarrow> if d \<le> 2000 then 0 else if d \<le> 5000 then 1 else 2)"
  by (simp add: calculateSeaWaypoints_def exceeds_def Let_def split: option.split)

lemma waypoint_count_exact_arithmetic:
  "length (calculateSeaWaypoints haversineTerm a b) =
     (if calculateDistance (fst a) (snd a) (fst b) (snd b) \<le> 2000 then 0
      else if calculateDistance (fst a) (snd a) (fst b) (snd b) \<le> 5000 then 1
      else 2)"
  by (simp add: calculateSeaWaypoints_count seaDistance_exact)

text \<open>A term below 0 or above 1 makes the distance \<open>NaN\<close>, and no waypoint is returned.\<close>

lemma calculateSeaWaypoints_nan:
  assumes "fpTerm a b < 0 \<or> 1 < fpTerm a b"
  shows "calculateSeaWaypoints fpTerm a b = []"
  using seaDistance_out_of_range [of fpTerm a b] assms
  by (simp add: calculateSeaWaypoints_def exceeds_def)

text \<open>
  The points (0.08, 0) and (-0.08, 180) are almost antipodes: the exact term is 1 and the
  haversine distance half the circumference, 6371 * pi km.
\<close>

lemma near_antipodes_term: "haversineTerm (0.08, 0) (- 0.08, 180) = 1"
proof -
  define t :: real where "t = 0.08 * pi / 180"
  have "haversineTerm (0.08, 0) (- 0.08, 180) =
      sin ((- t - t) / 2) ^ 2 + cos t * cos (- t) * sin (pi / 2) ^ 2"
    by (simp add: haversineTerm_def Let_def t_def)
  also have "(- t - t) / 2 = - t" by simp
  also have "sin (- t) ^ 2 + cos t * cos (- t) * sin (pi / 2) ^ 2 = sin t ^ 2 + cos t ^ 2"
    by (simp add: power2_eq_square)
  also have "\<dots> = 1" by simp
  finally show ?thesis .
qed

lemma near_antipodes_distance: "calculateDistance 0.08 0 (- 0.08) 180 = 6371 * pi"
proof -
  have "calculateDistance 0.08 0 (- 0.08) 180
        = 6371 * (2 * atan2 (sqrt (haversineTerm (0.08, 0) (- 0.08, 180)))
                     (sqrt (1 - haversineTerm (0.08, 0) (- 0.08, 180))))"
    using haversineTerm_calculateDistance [of "(0.08, 0)" "(- 0.08, 180)"] by simp
  then have "calculateDistance 0.08 0 (- 0.08) 180 = 6371 * (2 * atan2 (sqrt 1) (sqrt (1 - 1)))"
    by (simp only: near_antipodes_term)
  then show ?thesis by (simp add: atan2_def)
qed

lemma half_turn_term: "haversineTerm (0, 0) (0, 180) = 1"
  by (simp add: haversineTerm_def Let_def)

lemma half_equator_is_long: "(5000 :: real) < 6371 * pi"
proof -
  have "(5000::real) < 6371 * 2" by simp
  also have "\<dots> \<le> 6371 * pi" using pi_ge_two by simp
  finally show ?thesis .
qed

text \<open>
  Claim C7 asks two waypoints of every pair of points more than 5000 km apart. For
  (0.08, 0) and (-0.08, 180), some 20015 km apart, double arithmetic gives the term the
  value 1 + 2^-52, the double next above 1. The distance is then \<open>NaN\<close>, both threshold
  tests fail, and the synthesizer returns no waypoint.
\<close>

theorem synthesizer_near_antipodes:
  "haversineTerm (0.08, 0) (- 0.08, 180) = 1 \<and>
   calculateDistance 0.08 0 (- 0.08) 180 = 6371 * pi \<and>
   5000 < calculateDistance 0.08 0 (- 0.08) 180 \<and>
   seaDistance (\<lambda>point1 point2. 1 + 1 / 2 ^ 52) (0.08, 0) (- 0.08, 180) = None \<and>
   calculateSeaWaypoints (\<lambda>point1 point2. 1 + 1 / 2 ^ 52) (0.08, 0) (- 0.08, 180) = []"
proof -
  have big: "(1 :: real) < 1 + 1 / 2 ^ 52" by simp
  have "seaDistance (\<lambda>point1 point2. 1 + 1 / 2 ^ 52) (0.08, 0) (- 0.08, 180) = None"
    by (rule seaDistance_out_of_range) (simp only: big simp_thms)
  moreover have "calculateSeaWaypoints (\<lambda>point1 point2. 1 + 1 / 2 ^ 52) (0.08, 0) (- 0.08, 180) = []"
    by (rule calculateSeaWaypoints_nan) (simp only: big simp_thms)
  ultimately show ?thesis
    using near_antipodes_term near_antipodes_distance half_equator_is_long by simp
qed

text \<open>
  Claim C8 as stated places the two waypoints of a long route at the marks 1/3 and 2/3.
  Between (0, 0) and (0, 180), half the equator apart, the term is 1, exactly and in
  doubles, and the code returns other points.
\<close>

theorem long_route_thirds_counterexample:
  "haversineTerm (0, 0) (0, 180) = 1 \<and>
   seaDistance haversineTerm (0, 0) (0, 180) = Some (6371 * pi) \<and>
   calculateDistance 0 0 0 180 > 5000 \<and>
   calculateSeaWaypoints haversineTerm (0, 0) (0, 180) = [(0, 59.4), (0, 120.6)] \<and>
   thirdsWaypoints (0, 0) (0, 180) = [(0, 60), (0, 120)] \<and>
   calculateSeaWaypoints haversineTerm (0, 0) (0, 180) \<noteq> thirdsWaypoints (0, 0) (0, 180)"
proof -
  have d: "seaDistance haversineTerm (0, 0) (0, 180) = Some (6371 * pi)"
    using seaDistance_exact [of "(0, 0)" "(0, 180)"] by (simp add: distance_half_turn)
  have w: "calculateSeaWaypoints haversineTerm (0, 0) (0, 180) = [(0, 59.4), (0, 120.6)]"
    using half_equator_is_long by (simp add: calculateSeaWaypoints_def d exceeds_def)
  have t: "thirdsWaypoints (0, 0) (0, 180) = [(0, 60), (0, 120)]"
    by (simp add: thirdsWaypoints_def)
  from half_turn_term d w t half_equator_is_long show ?thesis
    by (simp add: distance_half_turn)
qed

text \<open>
  Claim C8, amended. For two points whose distance, as the synthesizer computes it, is a
  number above 5000 km, the two waypoints lie at the marks 0.33 and 0.67 of the straight
  interpolation between them, the latitude then multiplied by 0.85 and the longitude
  left as interpolated. Pairs of points for which the computed distance is \<open>NaN\<close> are
  left open.
\<close>

theorem long_route_waypoints:
  assumes "seaDistance fpTerm a b = Some d" and "d > 5000"
  shows "calculateSeaWaypoints fpTerm a b =
     [((fst a + (fst b - fst a) * 0.33) * 0.85, snd a + (snd b - snd a) * 0.33),
      ((fst a + (fst b - fst a) * 0.67) * 0.85, snd a + (snd b - snd a) * 0.67)]"
  using assms by (simp add: calculateSeaWaypoints_def exceeds_def Let_def)

theorem long_route_waypoints_witness:
  "seaDistance haversineTerm (0, 0) (0, 180) = Some (6371 * pi) \<and> 6371 * pi > (5000 :: real) \<and>
   calculateSeaWaypoints haversineTerm (0, 0) (0, 180) = [(0, 59.4), (0, 120.6)]"
proof -
  have d: "seaDistance haversineTerm (0, 0) (0, 180) = Some (6371 * pi)"
    using seaDistance_exact [of "(0, 0)" "(0, 180)"] by (simp add: distance_half_turn)
  from long_route_waypoints [OF d half_equator_is_long] d half_equator_is_long
  show ?thesis by simp
qed

section \<open>Properties of the coordinate resolver\<close>

text \<open>
  Claim C9. The resolver returns a coordinate pair for every string; the \<open>null\<close> of its
  declared type is never returned.
\<close>

theorem resolver_total: "\<exists>c. getLocationCoordinates location = Some c"
  by (simp add: getLocationCoordinates_def Let_def split: option.split)

text \<open>
  Claim C6 asks a latitude in [-60, 60) and a longitude in [-170, 170) of the hash
  fallback. ``Tokyo, Japan'' matches no entry of either table, its hash is negative, and
  the coordinates returned for it lie below both ranges.
\<close>

theorem hash_fallback_out_of_range:
  "map_of PORT_COORDINATES (trim (toUpperCase ''Tokyo, Japan'')) = None \<and>
   find (portPartialMatch (trim (toUpperCase ''Tokyo, Japan''))) PORT_COORDINATES = None \<and>
   map_of LOCATION_COORDINATES (trim (toUpperCase ''Tokyo, Japan'')) = None \<and>
   find (locationPartialMatch (trim (toUpperCase ''Tokyo, Japan''))) LOCATION_COORDINATES = None \<and>
   hashString ''Tokyo, Japan'' = - 1584476180 \<and>
   getLocationCoordinates ''Tokyo, Japan'' = Some (- 141.8, - 265.23)"
  by code_simp

text \<open>The ranges that the fallback does keep, for every string.\<close>

lemma jsRem_range:
  assumes "0 < b"
  shows "- b < jsRem a b \<and> jsRem a b < b"
proof (cases "a < 0")
  case True
  then have "jsRem a b = - ((- a) mod b)" using assms by (simp add: jsRem_def)
  moreover have "0 \<le> (- a) mod b" "(- a) mod b < b" using assms by simp_all
  ultimately show ?thesis using assms by linarith
next
  case False
  then have "jsRem a b = a mod b" using assms by (simp add: jsRem_def)
  moreover have "0 \<le> a mod b" "a mod b < b" using assms by simp_all
  ultimately show ?thesis using assms by linarith
qed

lemma hashCoordinates_range:
  "- 180 < fst (hashCoordinates location) \<and> fst (hashCoordinates location) < 60 \<and>
   - 510 < snd (hashCoordinates location) \<and> snd (hashCoordinates location) < 170"
proof -
  have a: "- 12000 < jsRem (hashString location) 12000 \<and> jsRem (hashString location) 12000 < 12000"
    using jsRem_range [of 12000] by simp
  have b: "- 34000 < jsRem (hashString location div 8) 34000 \<and> jsRem (hashString location div 8) 34000 < 34000"
    using jsRem_range [of 34000] by simp
  from a have a': "- 12000 < real_of_int (jsRem (hashString location) 12000)"
      "real_of_int (jsRem (hashString location) 12000) < 12000"
    by linarith+
  from b have b': "- 34000 < real_of_int (jsRem (hashString location div 8) 34000)"
      "real_of_int (jsRem (hashString location div 8) 34000) < 34000"
    by linarith+
  from a' b' show ?thesis
    by (simp add: hashCoordinates_def Let_def)
qed

section \<open>Properties of the milestone normalizer\<close>

lemma transformMilestone_status:
  "m_status (transformMilestone parseISO now m i ms orig dest) =
     (if hasPastDate parseISO now m then completed
      else if completedCount parseISO now i ms = i then current
      else upcoming)"
  by (cases "start_date m") (simp_all add: transformMilestone_def hasPastDate_def Let_def)

lemma hasPastDate_alt:
  "(start_date m \<noteq> None \<and> dateLe (parseISO (the (start_date m))) now) = hasPastDate parseISO now m"
  by (cases "start_date m") (simp_all add: hasPastDate_def)

lemma filter_index_below:
  "filter (\<lambda>(m, idx). idx < i \<and> Q m) (zip ms [0..<length ms]) =
   filter (\<lambda>(m, idx). Q m) (take i (zip ms [0..<length ms]))"
proof -
  let ?xs = "zip ms [0..<length ms]"
  let ?P = "\<lambda>(m, idx). idx < i \<and> Q m"
  have low: "\<And>x. x \<in> set (take i ?xs) \<Longrightarrow> snd x < i"
  proof -
    fix x assume "x \<in> set (take i ?xs)"
    then have "x \<in> set (zip (take i ms) (take i [0..<length ms]))" by (simp add: take_zip)
    then have "snd x \<in> set (take i [0..<length ms])"
      by (metis set_zip_rightD prod.collapse)
    moreover have "take i [0..<length ms] = [0..<min i (length ms)]"
      by (cases "i \<le> length ms") (simp_all add: take_upt)
    ultimately show "snd x < i" by simp
  qed
  have high: "\<And>x. x \<in> set (drop i ?xs) \<Longrightarrow> i \<le> snd x"
  proof -
    fix x assume "x \<in> set (drop i ?xs)"
    then have "x \<in> set (zip (drop i ms) (drop i [0..<length ms]))" by (simp add: drop_zip)
    then have "snd x \<in> set (drop i [0..<length ms])"
      by (metis set_zip_rightD prod.collapse)
    then show "i \<le> snd x" by (simp add: drop_upt)
  qed
  have "filter ?P ?xs = filter ?P (take i ?xs) @ filter ?P (drop i ?xs)"
    by (metis append_take_drop_id filter_append)
  moreover have "filter ?P (drop i ?xs) = []"
    using high by (fastforce simp: filter_empty_conv)
  moreover have "filter ?P (take i ?xs) = filter (\<lambda>(m, idx). Q m) (take i ?xs)"
    using low by (intro filter_cong) auto
  ultimately show ?thesis by simp
qed

lemma completedCount_completedBefore:
  "completedCount parseISO now i (shipment_milestones js) =
   completedBefore i (milestones (transformJsonShipment parseISO now js))"
proof -
  let ?ms = "shipment_milestones js"
  let ?F = "\<lambda>(m, idx). transformMilestone parseISO now m idx ?ms
              (orUnknown (js_origin js)) (orUnknown (js_destination js))"
  have st: "(\<lambda>m. m_status m = completed) \<circ> ?F = (\<lambda>(m, idx). hasPastDate parseISO now m)"
    by (auto simp: fun_eq_iff transformMilestone_status)
  have "completedBefore i (milestones (transformJsonShipment parseISO now js)) =
      length (filter ((\<lambda>m. m_status m = completed) \<circ> ?F) (take i (zip ?ms [0..<length ?ms])))"
    by (simp add: completedBefore_def transformJsonShipment_def take_map filter_map)
  also have "\<dots> = length (filter (\<lambda>(m, idx). hasPastDate parseISO now m) (take i (zip ?ms [0..<length ?ms])))"
    by (simp only: st)
  also have "\<dots> = length (filter (\<lambda>(m, idx). idx < i \<and> hasPastDate parseISO now m) (zip ?ms [0..<length ?ms]))"
    by (simp only: filter_index_below)
  also have "\<dots> = completedCount parseISO now i ?ms"
    by (simp add: completedCount_def hasPastDate_alt [symmetric])
  finally show ?thesis by simp
qed

lemma transformJsonShipment_nth:
  assumes "i < length (shipment_milestones js)"
  shows "milestones (transformJsonShipment parseISO now js) ! i =
         transformMilestone parseISO now (shipment_milestones js ! i) i (shipment_milestones js)
           (orUnknown (js_origin js)) (orUnknown (js_destination js))"
  using assms by (simp add: transformJsonShipment_def)

lemma transformJsonShipment_length:
  "length (milestones (transformJsonShipment parseISO now js)) = length (shipment_milestones js)"
  by (simp add: transformJsonShipment_def)

text \<open>
  Claim C3. The normalizer keeps every record. A milestone is completed exactly when
  its record has a date that is not after \<open>now\<close>; a milestone that is not completed
  is current exactly when the number of completed milestones before it equals its
  index, with or without a date of its own; and it is upcoming otherwise. The witness is
  scenario D: completed, current, upcoming, upcoming.
\<close>

theorem milestone_status_classification:
  assumes "i < length (shipment_milestones js)"
  shows "length (milestones (transformJsonShipment parseISO now js)) = length (shipment_milestones js) \<and>
         (m_status (milestones (transformJsonShipment parseISO now js) ! i) = completed \<longleftrightarrow>
            hasPastDate parseISO now (shipment_milestones js ! i)) \<and>
         (m_status (milestones (transformJsonShipment parseISO now js) ! i) \<noteq> completed \<longrightarrow>
            (m_status (milestones (transformJsonShipment parseISO now js) ! i) = current \<longleftrightarrow>
               completedBefore i (milestones (transformJsonShipment parseISO now js)) = i)) \<and>
         (m_status (milestones (transformJsonShipment parseISO now js) ! i) = upcoming \<longleftrightarrow>
            \<not> hasPastDate parseISO now (shipment_milestones js ! i) \<and>
            completedBefore i (milestones (transformJsonShipment parseISO now js)) \<noteq> i)"
  using assms
  by (simp add: transformJsonShipment_nth transformJsonShipment_length transformMilestone_status
      completedCount_completedBefore)

lemma list_of_length_4: "length xs = 4 \<Longrightarrow> \<exists>a b c d. xs = [a, b, c, d]"
  by (auto simp: eval_nat_numeral length_Suc_conv)

theorem milestone_status_classification_witness:
  "length (shipment_milestones scenarioD) = 4 \<and>
   map m_status (milestones (transformJsonShipment (\<lambda>s. Some 10) 20 scenarioD)) =
     [completed, current, upcoming, upcoming]"
proof -
  let ?P = "\<lambda>s::string. Some (10::int)"
  let ?out = "milestones (transformJsonShipment ?P 20 scenarioD)"
  have len: "length (shipment_milestones scenarioD) = 4" by (simp add: scenarioD_def)
  have past: "hasPastDate ?P 20 (shipment_milestones scenarioD ! 0)"
      "\<not> hasPastDate ?P 20 (shipment_milestones scenarioD ! 1)"
      "\<not> hasPastDate ?P 20 (shipment_milestones scenarioD ! 2)"
      "\<not> hasPastDate ?P 20 (shipment_milestones scenarioD ! 3)"
    by (simp_all add: scenarioD_def hasPastDate_def dateLe_def)
  have t0: "0 < length (shipment_milestones scenarioD)" and t1: "1 < length (shipment_milestones scenarioD)"
    and t2: "2 < length (shipment_milestones scenarioD)" and t3: "3 < length (shipment_milestones scenarioD)"
    by (simp_all add: len)
  from milestone_status_classification [OF t0, of ?P 20] len have "length ?out = 4" by simp
  then obtain a b c d where out: "?out = [a, b, c, d]" using list_of_length_4 by blast
  from milestone_status_classification [OF t0, of ?P 20] past(1)
  have a: "m_status a = completed" by (simp add: out)
  from milestone_status_classification [OF t1, of ?P 20] past(2)
  have b: "m_status b = current" by (simp add: out a completedBefore_def)
  from milestone_status_classification [OF t2, of ?P 20] past(3)
  have c: "m_status c = upcoming" by (simp add: out a b completedBefore_def)
  from milestone_status_classification [OF t3, of ?P 20] past(4)
  have d: "m_status d = upcoming" by (simp add: out a b c completedBefore_def)
  from len a b c d show ?thesis by (simp add: out)
qed

section \<open>Properties of the route stops and the progress\<close>

lemma findIndex_range: "- 1 \<le> findIndex P xs \<and> findIndex P xs < int (length xs)"
  by (induction xs) (auto simp: Let_def)

lemma findIndex_none: "(\<forall>x\<in>set xs. \<not> P x) \<Longrightarrow> findIndex P xs = - 1"
  by (induction xs) (auto simp: Let_def)

lemma findIndex_first:
  "i < length xs \<Longrightarrow> P (xs ! i) \<Longrightarrow> (\<forall>j<i. \<not> P (xs ! j)) \<Longrightarrow> findIndex P xs = int i"
proof (induction xs arbitrary: i)
  case Nil
  then show ?case by simp
next
  case (Cons x xs)
  show ?case
  proof (cases i)
    case 0
    with Cons.prems show ?thesis by simp
  next
    case (Suc k)
    from Cons.prems Suc have nx: "\<not> P x" by auto
    from Cons.prems Suc have "k < length xs" "P (xs ! k)" "\<forall>j<k. \<not> P (xs ! j)" by auto
    then have "findIndex P xs = int k" by (rule Cons.IH)
    with nx Suc show ?thesis by (simp add: Let_def)
  qed
qed

lemma completedStops_range: "0 \<le> completedStops stops \<and> completedStops stops \<le> int (length stops)"
  by (simp add: completedStops_def)

lemma lastReachedIndex_range:
  "- 1 \<le> lastReachedIndex stops \<and> lastReachedIndex stops < int (length stops)"
  using findIndex_range [of "\<lambda>s. rs_status s = current" stops] completedStops_range [of stops]
  by (auto simp: lastReachedIndex_def currentStopIndex_def)

lemma progress_formula:
  assumes "stops \<noteq> []"
  shows "progress stops / 100 = real_of_int (lastReachedIndex stops + 1) / real (length stops)"
proof (cases "lastReachedIndex stops \<ge> 0")
  case True
  define q where "q = real_of_int (lastReachedIndex stops + 1) / real (length stops)"
  have "progress stops = q * 100"
    using assms True by (simp add: progress_def q_def)
  then have "progress stops / 100 = q" by simp
  then show ?thesis by (simp only: q_def)
next
  case False
  with lastReachedIndex_range [of stops] have "lastReachedIndex stops = - 1" by linarith
  then show ?thesis by (simp add: progress_def)
qed

lemma progress_bounds:
  assumes "stops \<noteq> []"
  shows "0 \<le> progress stops / 100 \<and> progress stops / 100 \<le> 1"
proof -
  from assms have n: "0 < real (length stops)" by simp
  from lastReachedIndex_range [of stops]
  have "0 \<le> real_of_int (lastReachedIndex stops + 1)"
    and "real_of_int (lastReachedIndex stops + 1) \<le> real (length stops)"
    by linarith+
  with n show ?thesis
    unfolding progress_formula [OF assms] by (simp add: divide_le_eq)
qed

lemma progress_zero:
  assumes "\<forall>s\<in>set stops. rs_status s \<noteq> completed \<and> rs_status s \<noteq> current"
  shows "progress stops = 0"
proof -
  from assms have "findIndex (\<lambda>s. rs_status s = current) stops = - 1"
    by (intro findIndex_none) auto
  moreover from assms have "filter (\<lambda>s. rs_status s = completed) stops = []"
    by (auto simp: filter_empty_conv)
  ultimately have "lastReachedIndex stops = - 1"
    by (simp add: lastReachedIndex_def currentStopIndex_def completedStops_def)
  then show ?thesis by (simp add: progress_def)
qed

lemma progress_full:
  assumes "stops \<noteq> []" and "\<forall>s\<in>set stops. rs_status s = completed"
  shows "progress stops / 100 = 1"
proof -
  from assms(2) have "findIndex (\<lambda>s. rs_status s = current) stops = - 1"
    by (intro findIndex_none) auto
  moreover from assms(2) have "filter (\<lambda>s. rs_status s = completed) stops = stops"
    by (auto simp: filter_id_conv)
  ultimately have "lastReachedIndex stops = int (length stops) - 1"
    by (simp add: lastReachedIndex_def currentStopIndex_def completedStops_def)
  with assms(1) show ?thesis
    unfolding progress_formula [OF assms(1)] by simp
qed

lemma lastReachedIndex_current:
  assumes "i < length stops" "rs_status (stops ! i) = current"
    and "\<forall>j<i. rs_status (stops ! j) \<noteq> current"
  shows "lastReachedIndex stops = int i"
proof -
  from assms have "findIndex (\<lambda>s. rs_status s = current) stops = int i"
    by (intro findIndex_first) auto
  then show ?thesis by (simp add: lastReachedIndex_def currentStopIndex_def)
qed

lemma lastReachedIndex_no_current:
  assumes "\<forall>s\<in>set stops. rs_status s \<noteq> current"
  shows "lastReachedIndex stops = int (length (filter (\<lambda>s. rs_status s = completed) stops)) - 1"
proof -
  from assms have "findIndex (\<lambda>s. rs_status s = current) stops = - 1"
    by (intro findIndex_none) auto
  then show ?thesis by (simp add: lastReachedIndex_def currentStopIndex_def completedStops_def)
qed

text \<open>
  Claim C4 as stated makes the progress 1 whenever the last stop is completed. For the
  shipment whose only dated milestone is the delivery, the last stop is completed, the
  first is current, and the progress is one quarter.
\<close>

theorem progress_last_completed_counterexample:
  "rs_status (last (routeStops (transformJsonShipment (\<lambda>s. Some 10) 20 deliveredOnly))) = completed \<and>
   progress (routeStops (transformJsonShipment (\<lambda>s. Some 10) 20 deliveredOnly)) / 100 = 1 / 4"
  by code_simp

text \<open>
  Claim C4, amended. For a non-empty list of stops the progress, as a fraction, is
  \<open>(lastReachedIndex + 1) / totalStops\<close>, where \<open>lastReachedIndex\<close> is the index of the
  first current stop if there is one and the number of completed stops minus one
  otherwise; it lies in [0, 1]; it is 0 when no stop is completed or current; and it is 1
  when every stop is completed.
\<close>

theorem progress_formula_and_bounds:
  assumes "stops \<noteq> []"
  shows "progress stops / 100 = real_of_int (lastReachedIndex stops + 1) / real (length stops) \<and>
         (\<forall>i<length stops. rs_status (stops ! i) = current \<and> (\<forall>j<i. rs_status (stops ! j) \<noteq> current)
            \<longrightarrow> lastReachedIndex stops = int i) \<and>
         ((\<forall>s\<in>set stops. rs_status s \<noteq> current) \<longrightarrow>
            lastReachedIndex stops = int (length (filter (\<lambda>s. rs_status s = completed) stops)) - 1) \<and>
         0 \<le> progress stops / 100 \<and> progress stops / 100 \<le> 1 \<and>
         ((\<forall>s\<in>set stops. rs_status s \<noteq> completed \<and> rs_status s \<noteq> current) \<longrightarrow>
            progress stops / 100 = 0) \<and>
         ((\<forall>s\<in>set stops. rs_status s = completed) \<longrightarrow> progress stops / 100 = 1)"
proof (intro conjI allI impI)
  show "progress stops / 100 = real_of_int (lastReachedIndex stops + 1) / real (length stops)"
    by (rule progress_formula [OF assms])
next
  fix i
  assume "i < length stops"
    and "rs_status (stops ! i) = current \<and> (\<forall>j<i. rs_status (stops ! j) \<noteq> current)"
  then show "lastReachedIndex stops = int i"
    using lastReachedIndex_current [of i stops] by blast
next
  assume "\<forall>s\<in>set stops. rs_status s \<noteq> current"
  then show "lastReachedIndex stops = int (length (filter (\<lambda>s. rs_status s = completed) stops)) - 1"
    by (rule lastReachedIndex_no_current)
next
  show "0 \<le> progress stops / 100" "progress stops / 100 \<le> 1"
    using progress_bounds [OF assms] by blast+
next
  assume "\<forall>s\<in>set stops. rs_status s \<noteq> completed \<and> rs_status s \<noteq> current"
  then have "progress stops = 0" by (rule progress_zero)
  then show "progress stops / 100 = 0" by simp
next
  assume "\<forall>s\<in>set stops. rs_status s = completed"
  then show "progress stops / 100 = 1" by (rule progress_full [OF assms])
qed

lemma routeStops_scenarioD:
  "map rs_status (routeStops (transformJsonShipment (\<lambda>s. Some 10) 20 scenarioD)) =
     [completed, current, upcoming, upcoming]"
  by code_simp

theorem progress_formula_and_bounds_witness:
  "routeStops (transformJsonShipment (\<lambda>s. Some 10) 20 scenarioD) \<noteq> [] \<and>
   lastReachedIndex (routeStops (transformJsonShipment (\<lambda>s. Some 10) 20 scenarioD)) = 1 \<and>
   progress (routeStops (transformJsonShipment (\<lambda>s. Some 10) 20 scenarioD)) / 100 = 1 / 2"
proof -
  let ?stops = "routeStops (transformJsonShipment (\<lambda>s. Some 10) 20 scenarioD)"
  have st: "map rs_status ?stops = [completed, current, upcoming, upcoming]"
    by (rule routeStops_scenarioD)
  have "length (map rs_status ?stops) = 4" by (simp only: st) simp
  then have len: "length ?stops = 4" by simp
  then have ne: "?stops \<noteq> []" by auto
  have "map rs_status ?stops ! 0 = completed" "map rs_status ?stops ! 1 = current"
    by (simp_all only: st) simp_all
  then have s0: "rs_status (?stops ! 0) = completed" and s1: "rs_status (?stops ! 1) = current"
    using len by simp_all
  have first: "\<forall>j<1. rs_status (?stops ! j) \<noteq> current" using s0 by simp
  have one: "(1::nat) < length ?stops" using len by simp
  from progress_formula_and_bounds [OF ne] one s1 first
  have "lastReachedIndex ?stops = int 1" by blast
  then have l: "lastReachedIndex ?stops = 1" by simp
  from progress_formula_and_bounds [OF ne]
  have "progress ?stops / 100 = real_of_int (lastReachedIndex ?stops + 1) / real (length ?stops)"
    by blast
  then have "progress ?stops / 100 = 1 / 2" by (simp add: l len)
  with ne l show ?thesis by simp
qed

lemma padStops_append:
  "padStops shipment stops = stops @ map (placeholder shipment) [length stops..<4]"
proof (induction shipment stops rule: padStops.induct)
  case (1 shipment stops)
  show ?case
  proof (cases "length stops < 4")
    case True
    then have "padStops shipment stops =
        padStops shipment (stops @ [placeholder shipment (length stops)])"
      by (subst padStops.simps) simp
    also have "\<dots> = (stops @ [placeholder shipment (length stops)]) @
        map (placeholder shipment) [Suc (length stops)..<4]"
      using "1.IH" [OF True] by simp
    also have "\<dots> = stops @ map (placeholder shipment) [length stops..<4]"
      using True by (simp add: upt_conv_Cons)
    finally show ?thesis .
  next
    case False
    then have "padStops shipment stops = stops" by (subst padStops.simps) simp
    with False show ?thesis by simp
  qed
qed

lemma padded_length: "length (take k (xs @ map f [length xs..<k])) = k"
  by simp

lemma padded_nth:
  "i < k \<Longrightarrow> take k (xs @ map f [length xs..<k]) ! i = (if i < length xs then xs ! i else f i)"
  by (simp add: nth_append)

lemma routeStops_length: "length (routeStops shipment) = 4"
  unfolding routeStops_def padStops_append by (rule padded_length)

lemma routeStops_core:
  assumes "i < 4" "i < length (coreMilestones shipment)"
  shows "routeStops shipment ! i = toStop (coreMilestones shipment ! i)"
  unfolding routeStops_def padStops_append using assms by (simp only: padded_nth) simp

lemma routeStops_placeholder:
  assumes "i < 4" "length (coreMilestones shipment) \<le> i"
  shows "routeStops shipment ! i = placeholder shipment i"
  unfolding routeStops_def padStops_append using assms by (simp only: padded_nth) simp

lemma coreMilestones_length: "length (coreMilestones shipment) \<le> length (milestones shipment)"
  by (simp add: coreMilestones_def)

lemma coreMilestones_set:
  "set (coreMilestones shipment) = {m \<in> set (milestones shipment). isCoreMilestone m}"
  by (auto simp: coreMilestones_def)

lemma coreMilestones_sorted:
  "sorted (map (\<lambda>m. getOrder (m_name m)) (coreMilestones shipment))"
  by (simp add: coreMilestones_def)

text \<open>
  Claim C5 as stated keeps every record of a list of four or more milestones. Of the
  five milestones of this shipment four stops remain, and the delivery is not among
  them.
\<close>

theorem stops_dropped_counterexample:
  "length (milestones (transformJsonShipment (\<lambda>s. Some 10) 20 fiveMilestones)) = 5 \<and>
   length (routeStops (transformJsonShipment (\<lambda>s. Some 10) 20 fiveMilestones)) = 4 \<and>
   map milestoneName (routeStops (transformJsonShipment (\<lambda>s. Some 10) 20 fiveMilestones)) =
     [''Empty to shipper'', ''Departure from first POL'', ''Arrival at transshipment port'',
      ''Arrival at final POD'']"
  by code_simp

lemma routeStops_subseq:
  "subseq (map toStop (take 4 (coreMilestones shipment))) (routeStops shipment)"
proof -
  let ?xs = "map toStop (coreMilestones shipment)"
  let ?ps = "map (placeholder shipment) [length ?xs..<4]"
  have "routeStops shipment = take 4 ?xs @ take (4 - length ?xs) ?ps"
    unfolding routeStops_def padStops_append by (rule take_append)
  moreover have "map toStop (take 4 (coreMilestones shipment)) = take 4 ?xs"
    by (rule take_map [symmetric])
  ultimately have "prefix (map toStop (take 4 (coreMilestones shipment))) (routeStops shipment)"
    by (simp only: prefixI)
  then show ?thesis by (rule prefix_imp_subseq)
qed

lemma take_of_long_prefix: "k \<le> length xs \<Longrightarrow> take k (xs @ ps) = take k xs"
  by simp

lemma routeStops_full:
  assumes "4 \<le> length (coreMilestones shipment)"
  shows "routeStops shipment = map toStop (take 4 (coreMilestones shipment))"
proof -
  from assms have "4 \<le> length (map toStop (coreMilestones shipment))" by simp
  then have "routeStops shipment = take 4 (map toStop (coreMilestones shipment))"
    unfolding routeStops_def padStops_append by (rule take_of_long_prefix)
  then show ?thesis by (simp only: take_map)
qed

lemma routeStops_stop_or_placeholder:
  assumes "i < 4"
  shows "(\<exists>m\<in>set (coreMilestones shipment). routeStops shipment ! i = toStop m) \<or>
         (rs_location (routeStops shipment ! i) =
            (if i < 2 then s_origin shipment else s_destination shipment) \<and>
          rs_date (routeStops shipment ! i) = None \<and>
          rs_status (routeStops shipment ! i) = upcoming)"
proof (cases "i < length (coreMilestones shipment)")
  case True
  then have "coreMilestones shipment ! i \<in> set (coreMilestones shipment)" by (rule nth_mem)
  with routeStops_core [OF assms True] show ?thesis by blast
next
  case False
  then have "length (coreMilestones shipment) \<le> i" by simp
  from routeStops_placeholder [OF assms this] show ?thesis by (simp add: placeholder_def)
qed

text \<open>
  Claim C5, amended. The route-stop list of every shipment has exactly four stops, also
  when the shipment has fewer than four milestone records. The stops that come from the
  shipment are its core milestones (those whose name contains empty, departure, arrival
  or delivery), in the order of these four kinds and cut after the fourth, so that a
  longer list loses records. Every other stop is a placeholder with the origin at
  positions 0 and 1 and the destination at positions 2 and 3, status upcoming and no
  date. Which of the canonical stops a placeholder stands for, and where the
  placeholders sit among the milestones, is left open.
\<close>

theorem route_stops_completeness:
  "length (routeStops shipment) = 4 \<and>
   length (coreMilestones shipment) \<le> length (milestones shipment) \<and>
   set (coreMilestones shipment) = {m \<in> set (milestones shipment). isCoreMilestone m} \<and>
   sorted (map (\<lambda>m. getOrder (m_name m)) (coreMilestones shipment)) \<and>
   subseq (map toStop (take 4 (coreMilestones shipment))) (routeStops shipment) \<and>
   (4 \<le> length (coreMilestones shipment) \<longrightarrow>
      routeStops shipment = map toStop (take 4 (coreMilestones shipment))) \<and>
   (\<forall>i<4. (\<exists>m\<in>set (coreMilestones shipment). routeStops shipment ! i = toStop m) \<or>
      (rs_location (routeStops shipment ! i) =
         (if i < 2 then s_origin shipment else s_destination shipment) \<and>
       rs_date (routeStops shipment ! i) = None \<and>
       rs_status (routeStops shipment ! i) = upcoming))"
  using routeStops_length [of shipment] coreMilestones_length [of shipment]
    coreMilestones_set [of shipment] coreMilestones_sorted [of shipment]
    routeStops_subseq [of shipment] routeStops_full [of shipment]
    routeStops_stop_or_placeholder [of _ shipment]
  by blast

lemma oneMilestone_core_names:
  "map m_name (coreMilestones (transformJsonShipment (\<lambda>s. Some 10) 20 oneMilestone)) =
     [''Empty to shipper'']"
  by code_simp

lemma oneMilestone_stop_names:
  "map milestoneName (routeStops (transformJsonShipment (\<lambda>s. Some 10) 20 oneMilestone)) =
     [''Empty to shipper'', ''Departure from first POL'', ''Arrival at final POD'',
      ''Delivery to consignee'']"
  by code_simp

theorem route_stops_completeness_witness:
  "length (milestones (transformJsonShipment (\<lambda>s. Some 10) 20 oneMilestone)) = 1 \<and>
   length (routeStops (transformJsonShipment (\<lambda>s. Some 10) 20 oneMilestone)) = 4 \<and>
   rs_location (routeStops (transformJsonShipment (\<lambda>s. Some 10) 20 oneMilestone) ! 1) =
     ''Karachi, Pakistan'' \<and>
   rs_date (routeStops (transformJsonShipment (\<lambda>s. Some 10) 20 oneMilestone) ! 1) = None \<and>
   rs_status (routeStops (transformJsonShipment (\<lambda>s. Some 10) 20 oneMilestone) ! 1) = upcoming \<and>
   rs_location (routeStops (transformJsonShipment (\<lambda>s. Some 10) 20 oneMilestone) ! 3) =
     ''Santos, Brazil'' \<and>
   rs_date (routeStops (transformJsonShipment (\<lambda>s. Some 10) 20 oneMilestone) ! 3) = None \<and>
   rs_status (routeStops (transformJsonShipment (\<lambda>s. Some 10) 20 oneMilestone) ! 3) = upcoming"
proof -
  let ?s = "transformJsonShipment (\<lambda>s. Some 10) 20 oneMilestone"
  have m: "length (milestones ?s) = 1"
    by (simp add: transformJsonShipment_def oneMilestone_def)
  have o: "s_origin ?s = ''Karachi, Pakistan''" "s_destination ?s = ''Santos, Brazil''"
    by (simp_all add: transformJsonShipment_def oneMilestone_def)
  note t = route_stops_completeness [of ?s]
  from t have l: "length (routeStops ?s) = 4" by blast
  have core: "\<And>c. c \<in> set (coreMilestones ?s) \<Longrightarrow> m_name c = ''Empty to shipper''"
  proof -
    fix c assume "c \<in> set (coreMilestones ?s)"
    then have "m_name c \<in> set (map m_name (coreMilestones ?s))" by simp
    then show "m_name c = ''Empty to shipper''" by (simp only: oneMilestone_core_names) simp
  qed
  have "map milestoneName (routeStops ?s) ! 1 = ''Departure from first POL''"
    "map milestoneName (routeStops ?s) ! 3 = ''Delivery to consignee''"
    by (simp_all only: oneMilestone_stop_names) simp_all
  then have n: "milestoneName (routeStops ?s ! 1) = ''Departure from first POL''"
    "milestoneName (routeStops ?s ! 3) = ''Delivery to consignee''"
    using l by simp_all
  have no1: "\<not> (\<exists>c\<in>set (coreMilestones ?s). routeStops ?s ! 1 = toStop c)"
    using core n(1) by (auto simp: toStop_def)
  have no3: "\<not> (\<exists>c\<in>set (coreMilestones ?s). routeStops ?s ! 3 = toStop c)"
    using core n(2) by (auto simp: toStop_def)
  from t have p: "\<forall>i<4. (\<exists>c\<in>set (coreMilestones ?s). routeStops ?s ! i = toStop c) \<or>
      (rs_location (routeStops ?s ! i) = (if i < 2 then s_origin ?s else s_destination ?s) \<and>
       rs_date (routeStops ?s ! i) = None \<and>
       rs_status (routeStops ?s ! i) = upcoming)"
    by blast
  from p [rule_format, of 1] no1 o
  have p1: "rs_location (routeStops ?s ! 1) = ''Karachi, Pakistan'' \<and>
      rs_date (routeStops ?s ! 1) = None \<and> rs_status (routeStops ?s ! 1) = upcoming" by simp
  from p [rule_format, of 3] no3 o
  have p3: "rs_location (routeStops ?s ! 3) = ''Santos, Brazil'' \<and>
      rs_date (routeStops ?s ! 3) = None \<and> rs_status (routeStops ?s ! 3) = upcoming" by simp
  from m l p1 p3 show ?thesis by blast
qed

text \<open>
  The name of a placeholder is the canonical name of its position, not that of a stop
  that is missing: a shipment whose only milestone is the delivery shows the delivery
  twice and never the stop ``Empty to shipper''.
\<close>

lemma placeholder_names_single_delivery:
  "map milestoneName (routeStops (transformJsonShipment (\<lambda>s. Some 10) 20 singleDelivery)) =
     [''Delivery to consignee'', ''Departure from first POL'', ''Arrival at final POD'',
      ''Delivery to consignee'']"
  by code_simp

section \<open>Properties of the route tiers\<close>

lemma trackingRoute_length:
  "length (trackingRoute t) =
     length (completed_route (route_coordinates t)) + length (remaining_route (route_coordinates t))"
  by (simp add: trackingRoute_def Let_def)

lemma trackingRoute_coords:
  "map rp_coords (trackingRoute t) =
     map (\<lambda>p. (latitude p, longitude p))
       (completed_route (route_coordinates t) @ remaining_route (route_coordinates t))"
proof -
  let ?labelled = "map (\<lambda>point. (point, ''Completed Route'')) (completed_route (route_coordinates t)) @
                   map (\<lambda>point. (point, ''Remaining Route'')) (remaining_route (route_coordinates t))"
  have "map rp_coords (trackingRoute t) =
      map ((\<lambda>pl. (latitude (fst pl), longitude (fst pl))) \<circ> fst) (zip ?labelled [0..<length ?labelled])"
    by (simp add: trackingRoute_def Let_def split_def comp_def)
  also have "\<dots> = map (\<lambda>pl. (latitude (fst pl), longitude (fst pl))) (map fst (zip ?labelled [0..<length ?labelled]))"
    by (simp only: map_map)
  also have "map fst (zip ?labelled [0..<length ?labelled]) = ?labelled"
    by (rule map_fst_zip) simp
  finally show ?thesis by (simp add: comp_def)
qed

lemma tracking_tier_wins:
  assumes "getShipmentTrackingData feed (shipmentKey shipment) = Some t"
    and "completed_route (route_coordinates t) @ remaining_route (route_coordinates t) \<noteq> []"
  shows "getShipmentRouteCoordinates feed dateTime arraySort fpTerm details shipment =
         trackingRoute t"
proof -
  from assms(2) have "length (trackingRoute t) \<noteq> 0"
    unfolding trackingRoute_length by auto
  then have "trackingRoute t \<noteq> []" by auto
  with assms(1) show ?thesis by (simp add: getShipmentRouteCoordinates_def)
qed

text \<open>
  Claim C2. When the tracking feed knows the shipment and holds at least one route
  coordinate, the route is the one built from the feed's completed and remaining routes,
  whatever the details feed holds: the same route results from any other details feed,
  or none, and from any sort, date parser and arithmetic of the later tiers.
\<close>

theorem fusion_source_priority:
  assumes "getShipmentTrackingData feed (shipmentKey shipment) = Some t"
    and "completed_route (route_coordinates t) @ remaining_route (route_coordinates t) \<noteq> []"
  shows "getShipmentRouteCoordinates feed dateTime arraySort fpTerm details shipment =
           trackingRoute t \<and>
         map rp_coords (getShipmentRouteCoordinates feed dateTime arraySort fpTerm details shipment) =
           map (\<lambda>p. (latitude p, longitude p))
             (completed_route (route_coordinates t) @ remaining_route (route_coordinates t)) \<and>
         getShipmentRouteCoordinates feed dateTime arraySort fpTerm details shipment =
           getShipmentRouteCoordinates feed otherDateTime otherSort otherTerm otherDetails shipment"
  using tracking_tier_wins [OF assms] trackingRoute_coords [of t] by simp

lemma details_tier_example:
  "map rp_coords
     (getShipmentRouteCoordinatesFromDetails (\<lambda>s. None) (\<lambda>cmp xs. xs) haversineTerm
        (Some exampleDetails) ''S1'')
     = [(25, 55)]"
  by (simp add: getShipmentRouteCoordinatesFromDetails_def exampleDetails_def
      toPortPoint_def milestoneCoords_def Let_def)

theorem fusion_source_priority_witness:
  "getShipmentTrackingData [exampleTracking ''in_transit'' [point 5 5] [point 0 180, point 0 0]]
       (shipmentKey exampleShipment)
     = Some (exampleTracking ''in_transit'' [point 5 5] [point 0 180, point 0 0]) \<and>
   [point 5 5] @ [point 0 180, point 0 0] \<noteq> [] \<and>
   map rp_coords
     (getShipmentRouteCoordinates [exampleTracking ''in_transit'' [point 5 5] [point 0 180, point 0 0]]
        (\<lambda>s. None) (\<lambda>cmp xs. xs) haversineTerm (Some exampleDetails) exampleShipment)
     = [(5, 5), (0, 180), (0, 0)] \<and>
   map rp_coords
     (getShipmentRouteCoordinates [] (\<lambda>s. None) (\<lambda>cmp xs. xs) haversineTerm
        (Some exampleDetails) exampleShipment)
     = [(25, 55)]"
proof -
  let ?C = "exampleTracking ''in_transit'' [point 5 5] [point 0 180, point 0 0]"
  have key: "shipmentKey exampleShipment = ''S1''"
    by (simp add: shipmentKey_def exampleShipment_def)
  have hC: "getShipmentTrackingData [?C] (shipmentKey exampleShipment) = Some ?C"
    by (simp add: key getShipmentTrackingData_def exampleTracking_sel)
  have ne: "completed_route (route_coordinates ?C) @ remaining_route (route_coordinates ?C) \<noteq> []"
    by (simp add: exampleTracking_sel)
  from fusion_source_priority [OF hC ne, where dateTime = "\<lambda>s. None" and arraySort = "\<lambda>cmp xs. xs"
      and fpTerm = haversineTerm and details = "Some exampleDetails"
      and otherDateTime = "\<lambda>s. None" and otherSort = "\<lambda>cmp xs. xs"
      and otherTerm = haversineTerm and otherDetails = None]
  have "map rp_coords (getShipmentRouteCoordinates [?C] (\<lambda>s. None) (\<lambda>cmp xs. xs) haversineTerm
          (Some exampleDetails) exampleShipment)
      = map (\<lambda>p. (latitude p, longitude p))
          (completed_route (route_coordinates ?C) @ remaining_route (route_coordinates ?C))"
    by blast
  then have "map rp_coords (getShipmentRouteCoordinates [?C] (\<lambda>s. None) (\<lambda>cmp xs. xs) haversineTerm
          (Some exampleDetails) exampleShipment)
      = [(5, 5), (0, 180), (0, 0)]"
    by (simp add: exampleTracking_sel point_def)
  moreover have "map rp_coords
     (getShipmentRouteCoordinates [] (\<lambda>s. None) (\<lambda>cmp xs. xs) haversineTerm
        (Some exampleDetails) exampleShipment) = [(25, 55)]"
    using details_tier_example
    by (auto simp: getShipmentRouteCoordinates_def getShipmentTrackingData_def exampleShipment_def Let_def)
  ultimately show ?thesis using hC by simp
qed

end
